theory Spec2Isabelle
  imports Main
begin

section \<open>Configuration definitions of the cluster (lib/config/definitions.js)\<close>

text \<open>
  The module builds the base config groups, registers them in the three top-level
  configs, offers \<open>registerPluginConfigGroups\<close> for the plugins' groups and
  \<open>handleConfigCommand\<close> for the command line. The classes it extends
  (\<open>ConfigGroup\<close>, \<open>PluginConfigGroup\<close>, \<open>Config\<close>) live in
  \<open>./classes\<close>; their operations are modelled from the specification and marked so.
\<close>

subsection \<open>JavaScript values\<close>

text \<open>
  The values that reach this module: primitives, arrays and plain objects. Numbers are
  only stored and compared here, never computed with, so integers stand for them.
\<close>

datatype jsval =
    JUndefined
  | JNull
  | JBool bool
  | JNum int
  | JStr string
  | JArr "jsval list"
  | JObj "(string \<times> jsval) list"

subsection \<open>Field definitions, groups and configs\<close>

datatype field_type = TString | TNumber | TBoolean | TObject

text \<open>
  \<open>initial_value\<close> of a definition literal: absent, a literal, a function
  (\<open>() => ...\<close>) or an async function. The module only stores the generators, it
  never runs them.
\<close>

datatype initial = NoInitial | Literal jsval | Generator | AsyncGenerator

text \<open>
  The literal passed to \<open>define\<close>. \<open>title\<close> and \<open>description\<close> are display
  text and left out.
\<close>

record field_def =
  field_name :: string
  field_type :: field_type
  optional :: bool
  initial_value :: initial

text \<open>
  A group class: its \<open>groupName\<close>, its definitions in order, whether it is locked
  and whether it extends \<open>PluginConfigGroup\<close> (the plugin-extensible tag of the
  specification, section 3).
\<close>

record group =
  groupName :: string
  definitions :: "field_def list"
  locked :: bool
  plugin_extensible :: bool

text \<open>A config class: the registered groups in registration order and its lock.\<close>

record config =
  groups :: "group list"
  config_locked :: bool

datatype error =
    NotPluginConfigGroup string string
  | NotNamedAfterPlugin string string
  | TypeError string
  | ConfigLocked
  | DuplicateGroup string
  | GroupNotFinalized string
  | GroupLocked string
  | DuplicateField string

text \<open>
  Modelled from the spec: the base class \<open>ConfigGroup\<close> of \<open>./classes\<close>
  (sections 3 and 4.2). \<open>class X extends classes.ConfigGroup { }\<close> followed by
  \<open>X.groupName = n\<close> is a group in its initial state: open, without definitions.
\<close>

definition new_ConfigGroup :: "string \<Rightarrow> group" where
  "new_ConfigGroup n =
     \<lparr>groupName = n, definitions = [], locked = False, plugin_extensible = False\<rparr>"

text \<open>
  Modelled from the spec: the base class \<open>PluginConfigGroup\<close> of \<open>./classes\<close>
  (section 3): the same shape, tagged as plugin-extensible.
\<close>

definition new_PluginConfigGroup :: "string \<Rightarrow> group" where
  "new_PluginConfigGroup n =
     \<lparr>groupName = n, definitions = [], locked = False, plugin_extensible = True\<rparr>"

text \<open>
  Modelled from the spec: \<open>ConfigGroup.define\<close> of \<open>./classes\<close> (section 4.1):
  registers a definition on an open group; fails if the name already exists in that
  group or the group is locked. (\<open>define\<close> is a keyword of Isabelle, hence the
  name.)
\<close>

definition group_define :: "field_def \<Rightarrow> group \<Rightarrow> error + group" where
  "group_define d g =
     (if locked g then Inl (GroupLocked (groupName g))
      else if field_name d \<in> set (map field_name (definitions g))
        then Inl (DuplicateField (field_name d))
      else Inr (g\<lparr>definitions := definitions g @ [d]\<rparr>))"

text \<open>A run of \<open>define\<close> calls on one group; the first failure ends it.\<close>

fun define_all :: "field_def list \<Rightarrow> group \<Rightarrow> error + group" where
  "define_all [] g = Inr g"
| "define_all (d # ds) g =
     (case group_define d g of Inl e \<Rightarrow> Inl e | Inr g' \<Rightarrow> define_all ds g')"

text \<open>
  Modelled from the spec: \<open>ConfigGroup.finalize\<close> of \<open>./classes\<close> (section 4.2):
  the transition from Open to Locked; a repeated call changes nothing.
\<close>

definition finalize :: "group \<Rightarrow> group" where
  "finalize g = g\<lparr>locked := True\<rparr>"

text \<open>
  Modelled from the spec: \<open>Config.registerGroup\<close> of \<open>./classes\<close> (section 4.3):
  attaches a finalized group under its name; fails if the config is already locked, a
  group with that name is already registered, or the supplied group is not itself
  finalized.
\<close>

definition registerGroup :: "group \<Rightarrow> config \<Rightarrow> error + config" where
  "registerGroup g c =
     (if config_locked c then Inl ConfigLocked
      else if groupName g \<in> set (map groupName (groups c))
        then Inl (DuplicateGroup (groupName g))
      else if \<not> locked g then Inl (GroupNotFinalized (groupName g))
      else Inr (c\<lparr>groups := groups c @ [g]\<rparr>))"

subsection \<open>The module's state\<close>

datatype config_kind = MasterK | SlaveK | InstanceK

text \<open>
  Who created a group that is handed to \<open>registerGroup\<close>: this module (\<open>Own\<close>) or a
  plugin (\<open>Supplied\<close>).
\<close>

datatype origin = Own | Supplied

text \<open>
  The calls of \<open>finalize\<close> and \<open>registerGroup\<close> that the module makes, in order:
  \<open>FinalizeCall g\<close> with the group as \<open>finalize\<close> leaves it, \<open>RegisterCall k og g\<close>
  with the config, the origin of the group and the group as it is handed over.
\<close>

datatype event = FinalizeCall group | RegisterCall config_kind origin group

text \<open>
  The three config classes and the calls made so far. The list of calls is auxiliary;
  nothing reads it.
\<close>

record world =
  MasterConfig :: config
  SlaveConfig :: config
  InstanceConfig :: config
  events :: "event list"

definition config_of :: "config_kind \<Rightarrow> world \<Rightarrow> config" where
  "config_of k w =
     (case k of MasterK \<Rightarrow> MasterConfig w | SlaveK \<Rightarrow> SlaveConfig w
      | InstanceK \<Rightarrow> InstanceConfig w)"

definition set_config :: "config_kind \<Rightarrow> config \<Rightarrow> world \<Rightarrow> world" where
  "set_config k c w =
     (case k of MasterK \<Rightarrow> w\<lparr>MasterConfig := c\<rparr> | SlaveK \<Rightarrow> w\<lparr>SlaveConfig := c\<rparr>
      | InstanceK \<Rightarrow> w\<lparr>InstanceConfig := c\<rparr>)"

text \<open>
  A statement of the module either completes, or throws and leaves the state as it was
  at the throw: the pair of the error, if any, and the state.
\<close>

type_synonym outcome = "error option \<times> world"

text \<open>Sequencing: the next statement runs only if nothing was thrown.\<close>

definition and_then :: "outcome \<Rightarrow> (world \<Rightarrow> outcome) \<Rightarrow> outcome" where
  "and_then r f = (case r of (Some e, w) \<Rightarrow> (Some e, w) | (None, w) \<Rightarrow> f w)"

text \<open>\<open>K.registerGroup(g)\<close> on the config class \<open>K\<close>.\<close>

definition call_registerGroup :: "config_kind \<Rightarrow> origin \<Rightarrow> group \<Rightarrow> world \<Rightarrow> outcome" where
  "call_registerGroup k og g w =
     (let w1 = w\<lparr>events := events w @ [RegisterCall k og g]\<rparr>
      in case registerGroup g (config_of k w1) of
           Inl e \<Rightarrow> (Some e, w1)
         | Inr c \<Rightarrow> (None, set_config k c w1))"

text \<open>\<open>G.finalize()\<close> on a group class: the class afterwards, and the state.\<close>

definition call_finalize :: "group \<Rightarrow> world \<Rightarrow> group \<times> world" where
  "call_finalize g w = (finalize g, w\<lparr>events := events w @ [FinalizeCall (finalize g)]\<rparr>)"

subsection \<open>The base groups and configs (module top level)\<close>

definition MasterGroup_definitions :: "field_def list" where
  "MasterGroup_definitions =
     [\<lparr>field_name = ''database_directory'', field_type = TString, optional = False,
        initial_value = Literal (JStr ''database'')\<rparr>,
      \<lparr>field_name = ''factorio_directory'', field_type = TString, optional = False,
        initial_value = Literal (JStr ''factorio'')\<rparr>,
      \<lparr>field_name = ''http_port'', field_type = TNumber, optional = True,
        initial_value = NoInitial\<rparr>,
      \<lparr>field_name = ''https_port'', field_type = TNumber, optional = True,
        initial_value = Literal (JNum 8443)\<rparr>,
      \<lparr>field_name = ''web_root'', field_type = TString, optional = False,
        initial_value = Literal (JStr ''/'')\<rparr>,
      \<lparr>field_name = ''tls_certificate'', field_type = TString, optional = True,
        initial_value = Literal (JStr ''database/certificates/cert.crt'')\<rparr>,
      \<lparr>field_name = ''tls_private_key'', field_type = TString, optional = True,
        initial_value = Literal (JStr ''database/certificates/cert.key'')\<rparr>,
      \<lparr>field_name = ''tls_bits'', field_type = TNumber, optional = False,
        initial_value = Literal (JNum 2048)\<rparr>,
      \<lparr>field_name = ''auth_secret'', field_type = TString, optional = False,
        initial_value = AsyncGenerator\<rparr>,
      \<lparr>field_name = ''heartbeat_interval'', field_type = TNumber, optional = False,
        initial_value = Literal (JNum 60)\<rparr>,
      \<lparr>field_name = ''connector_shutdown_timeout'', field_type = TNumber, optional = False,
        initial_value = Literal (JNum 30)\<rparr>]"

definition SlaveGroup_definitions :: "field_def list" where
  "SlaveGroup_definitions =
     [\<lparr>field_name = ''name'', field_type = TString, optional = False,
        initial_value = Literal (JStr ''New Slave'')\<rparr>,
      \<lparr>field_name = ''id'', field_type = TNumber, optional = False,
        initial_value = Generator\<rparr>,
      \<lparr>field_name = ''factorio_directory'', field_type = TString, optional = False,
        initial_value = Literal (JStr ''factorio'')\<rparr>,
      \<lparr>field_name = ''instances_directory'', field_type = TString, optional = False,
        initial_value = Literal (JStr ''instances'')\<rparr>,
      \<lparr>field_name = ''master_url'', field_type = TString, optional = False,
        initial_value = Literal (JStr ''https://localhost:8443/'')\<rparr>,
      \<lparr>field_name = ''master_token'', field_type = TString, optional = False,
        initial_value = Literal (JStr ''enter token here'')\<rparr>,
      \<lparr>field_name = ''public_address'', field_type = TString, optional = False,
        initial_value = Literal (JStr ''localhost'')\<rparr>,
      \<lparr>field_name = ''reconnect_delay'', field_type = TNumber, optional = False,
        initial_value = Literal (JNum 5)\<rparr>]"

definition InstanceGroup_definitions :: "field_def list" where
  "InstanceGroup_definitions =
     [\<lparr>field_name = ''name'', field_type = TString, optional = False,
        initial_value = Literal (JStr ''New Instance'')\<rparr>,
      \<lparr>field_name = ''id'', field_type = TNumber, optional = False,
        initial_value = Generator\<rparr>,
      \<lparr>field_name = ''assigned_slave'', field_type = TNumber, optional = True,
        initial_value = NoInitial\<rparr>]"

definition FactorioGroup_definitions :: "field_def list" where
  "FactorioGroup_definitions =
     [\<lparr>field_name = ''version'', field_type = TString, optional = False,
        initial_value = Literal (JStr ''latest'')\<rparr>,
      \<lparr>field_name = ''game_port'', field_type = TNumber, optional = True,
        initial_value = NoInitial\<rparr>,
      \<lparr>field_name = ''rcon_port'', field_type = TNumber, optional = True,
        initial_value = NoInitial\<rparr>,
      \<lparr>field_name = ''rcon_password'', field_type = TString, optional = True,
        initial_value = NoInitial\<rparr>,
      \<lparr>field_name = ''settings'', field_type = TObject, optional = False,
        initial_value = Literal (JObj [(''tags'', JArr [JStr ''clusterio'']),
                                       (''auto_pause'', JBool False)])\<rparr>]"

text \<open>
  Modelled from the spec: the base class \<open>Config\<close> of \<open>./classes\<close> (sections 3
  and 4.3). \<open>class K extends classes.Config { }\<close> has no groups and is not locked.
\<close>

definition new_Config :: config where
  "new_Config = \<lparr>groups = [], config_locked = False\<rparr>"

definition empty_world :: world where
  "empty_world =
     \<lparr>MasterConfig = new_Config, SlaveConfig = new_Config, InstanceConfig = new_Config,
      events = []\<rparr>"

text \<open>
  A base group as the top level builds it: the class with its name, the \<open>define\<close>
  calls, then \<open>finalize()\<close>; the statements that follow use the class.
\<close>

definition base_group ::
  "string \<Rightarrow> field_def list \<Rightarrow> world \<Rightarrow> (group \<Rightarrow> world \<Rightarrow> outcome) \<Rightarrow> outcome" where
  "base_group n ds w f =
     (case define_all ds (new_ConfigGroup n) of
        Inl e \<Rightarrow> (Some e, w)
      | Inr g \<Rightarrow> (case call_finalize g w of (g', w') \<Rightarrow> f g' w'))"

text \<open>
  The top level of the module in source order (lines 15 to 226): \<open>MasterGroup\<close> is
  built and finalized, then registered in \<open>MasterConfig\<close>; the same for
  \<open>SlaveGroup\<close> and \<open>SlaveConfig\<close>; \<open>InstanceGroup\<close> and \<open>FactorioGroup\<close> are
  built and finalized, then both registered in \<open>InstanceConfig\<close>.
\<close>

definition module_init :: outcome where
  "module_init =
     base_group ''master'' MasterGroup_definitions empty_world (\<lambda>MasterGroup w.
     and_then (call_registerGroup MasterK Own MasterGroup w) (\<lambda>w.
     base_group ''slave'' SlaveGroup_definitions w (\<lambda>SlaveGroup w.
     and_then (call_registerGroup SlaveK Own SlaveGroup w) (\<lambda>w.
     base_group ''instance'' InstanceGroup_definitions w (\<lambda>InstanceGroup w.
     base_group ''factorio'' FactorioGroup_definitions w (\<lambda>FactorioGroup w.
     and_then (call_registerGroup InstanceK Own InstanceGroup w)
       (call_registerGroup InstanceK Own FactorioGroup)))))))"

subsection \<open>Plugin descriptors and their registration\<close>

text \<open>
  The part of a plugin's info object that the module reads. An absent property is
  \<open>None\<close>. \<open>instanceEntrypoint\<close> is a path.
\<close>

record pluginInfo =
  name :: string
  MasterConfigGroup :: "group option"
  InstanceConfigGroup :: "group option"
  instanceEntrypoint :: "string option"

text \<open>What an operator of \<open>validateGroup\<close> can be applied to.\<close>

datatype operand = Primitive jsval | GroupClass group

text \<open>\<open>pluginInfo[groupName]\<close>: the property of that name.\<close>

definition property :: "pluginInfo \<Rightarrow> string \<Rightarrow> operand" where
  "property p k =
     (if k = ''MasterConfigGroup'' then
        (case MasterConfigGroup p of None \<Rightarrow> Primitive JUndefined | Some g \<Rightarrow> GroupClass g)
      else if k = ''InstanceConfigGroup'' then
        (case InstanceConfigGroup p of None \<Rightarrow> Primitive JUndefined | Some g \<Rightarrow> GroupClass g)
      else if k = ''name'' then Primitive (JStr (name p))
      else if k = ''instanceEntrypoint'' then
        (case instanceEntrypoint p of None \<Rightarrow> Primitive JUndefined
         | Some s \<Rightarrow> Primitive (JStr s))
      else Primitive JUndefined)"

text \<open>JavaScript's ToBoolean.\<close>

fun truthy :: "operand \<Rightarrow> bool" where
  "truthy (GroupClass g) = True"
| "truthy (Primitive JUndefined) = False"
| "truthy (Primitive JNull) = False"
| "truthy (Primitive (JBool b)) = b"
| "truthy (Primitive (JNum n)) = (n \<noteq> 0)"
| "truthy (Primitive (JStr s)) = (s \<noteq> [])"
| "truthy (Primitive (JArr xs)) = True"
| "truthy (Primitive (JObj kvs)) = True"

text \<open>The unary \<open>!\<close>: always a boolean.\<close>

definition js_not :: "operand \<Rightarrow> operand" where
  "js_not v = Primitive (JBool (\<not> truthy v))"

text \<open>
  Modelled from the spec: \<open>v instanceof classes.PluginConfigGroup\<close> for a group class
  \<open>v\<close> is the plugin-extensible tag (the capability of sections 3 and 4.4;
  \<open>PluginConfigGroup\<close> is a class of \<open>./classes\<close>). For a primitive the operator
  is JavaScript's own: a primitive is an instance of nothing.
\<close>

fun instanceof_PluginConfigGroup :: "operand \<Rightarrow> bool" where
  "instanceof_PluginConfigGroup (GroupClass g) = plugin_extensible g"
| "instanceof_PluginConfigGroup (Primitive v) = False"

text \<open>
  \<open>validateGroup\<close> (lines 229 to 241). In the first condition \<open>!\<close> binds tighter than
  \<open>instanceof\<close>: the source reads \<open>(!pluginInfo[groupName]) instanceof ...\<close>. Reading
  \<open>.groupName\<close> of \<open>undefined\<close> or \<open>null\<close> throws a TypeError; of another
  primitive it is \<open>undefined\<close>, which differs from the name.
\<close>

definition validateGroup :: "pluginInfo \<Rightarrow> string \<Rightarrow> error + unit" where
  "validateGroup p k =
     (if instanceof_PluginConfigGroup (js_not (property p k))
        then Inl (NotPluginConfigGroup k (name p))
      else (case property p k of
              GroupClass g \<Rightarrow>
                if groupName g \<noteq> name p then Inl (NotNamedAfterPlugin k (name p))
                else Inr ()
            | Primitive v \<Rightarrow>
                if v = JUndefined \<or> v = JNull then Inl (TypeError k)
                else Inl (NotNamedAfterPlugin k (name p))))"

text \<open>
  The body of the loop of \<open>registerPluginConfigGroups\<close> for one descriptor
  (lines 248 to 270). A class is truthy and an absent property is \<open>undefined\<close>, so
  \<open>if (pluginInfo.MasterConfigGroup)\<close> is the case distinction on the option.
  \<open>instanceEntrypoint\<close> is a string: the empty one is falsy.
\<close>

definition register_master :: "pluginInfo \<Rightarrow> world \<Rightarrow> outcome" where
  "register_master p w =
     (case MasterConfigGroup p of
        Some g \<Rightarrow>
          (case validateGroup p ''MasterConfigGroup'' of
             Inl e \<Rightarrow> (Some e, w)
           | Inr u \<Rightarrow> call_registerGroup MasterK Supplied g w)
      | None \<Rightarrow>
          (case call_finalize (new_PluginConfigGroup (name p)) w of
             (g, w1) \<Rightarrow> call_registerGroup MasterK Own g w1))"

definition register_instance :: "pluginInfo \<Rightarrow> world \<Rightarrow> outcome" where
  "register_instance p w =
     (if truthy (property p ''instanceEntrypoint'') then
        (case InstanceConfigGroup p of
           Some g \<Rightarrow>
             (case validateGroup p ''InstanceConfigGroup'' of
                Inl e \<Rightarrow> (Some e, w)
              | Inr u \<Rightarrow> call_registerGroup InstanceK Supplied g w)
         | None \<Rightarrow>
             (case call_finalize (new_PluginConfigGroup (name p)) w of
                (g, w1) \<Rightarrow> call_registerGroup InstanceK Own g w1))
      else (None, w))"

definition register_plugin :: "pluginInfo \<Rightarrow> world \<Rightarrow> outcome" where
  "register_plugin p w = and_then (register_master p w) (register_instance p)"

text \<open>\<open>registerPluginConfigGroups\<close>: the loop over the descriptors, in order.\<close>

fun registerPluginConfigGroups :: "pluginInfo list \<Rightarrow> world \<Rightarrow> outcome" where
  "registerPluginConfigGroups [] w = (None, w)"
| "registerPluginConfigGroups (p # ps) w =
     and_then (register_plugin p w) (registerPluginConfigGroups ps)"

text \<open>
  The group that the loop body hands to \<open>registerGroup\<close> for a descriptor: the
  supplied class (lines 250 and 262), else the class it creates, names after the plugin
  and finalizes (lines 253 to 255 and 265 to 267).
\<close>

definition master_group :: "pluginInfo \<Rightarrow> group" where
  "master_group p =
     (case MasterConfigGroup p of Some g \<Rightarrow> g
      | None \<Rightarrow> finalize (new_PluginConfigGroup (name p)))"

definition instance_group :: "pluginInfo \<Rightarrow> group" where
  "instance_group p =
     (case InstanceConfigGroup p of Some g \<Rightarrow> g
      | None \<Rightarrow> finalize (new_PluginConfigGroup (name p)))"

text \<open>
  A check of a list of calls: every \<open>registerGroup\<close> call on a group of the module's
  own comes after a \<open>finalize\<close> call that left that group, or the group is among
  \<open>fs\<close>, the groups finalized earlier.
\<close>

fun finalized_first :: "group list \<Rightarrow> event list \<Rightarrow> bool" where
  "finalized_first fs [] = True"
| "finalized_first fs (FinalizeCall g # es) = finalized_first (g # fs) es"
| "finalized_first fs (RegisterCall k Own g # es) = (g \<in> set fs \<and> finalized_first fs es)"
| "finalized_first fs (RegisterCall k Supplied g # es) = finalized_first fs es"

text \<open>The state once the module is loaded.\<close>

definition loaded :: world where
  "loaded = snd module_init"

text \<open>
  Descriptors for the examples: a plugin with no group of its own that runs in the
  instance; one whose master group carries another name; one whose instance group
  carries another name; one whose master group extends \<open>ConfigGroup\<close> only; one that
  supplies an instance group but has no instance entry point; one named like a base
  group.
\<close>

definition inventory_plugin :: pluginInfo where
  "inventory_plugin =
     \<lparr>name = ''inventory'', MasterConfigGroup = None, InstanceConfigGroup = None,
      instanceEntrypoint = Some ''instance''\<rparr>"

definition stats_plugin :: pluginInfo where
  "stats_plugin =
     \<lparr>name = ''stats'',
      MasterConfigGroup = Some (finalize (new_PluginConfigGroup ''statistics'')),
      InstanceConfigGroup = None, instanceEntrypoint = None\<rparr>"

definition chat_plugin :: pluginInfo where
  "chat_plugin =
     \<lparr>name = ''chat'', MasterConfigGroup = None,
      InstanceConfigGroup = Some (finalize (new_PluginConfigGroup ''talk'')),
      instanceEntrypoint = Some ''instance''\<rparr>"

definition plain_plugin :: pluginInfo where
  "plain_plugin =
     \<lparr>name = ''plain'', MasterConfigGroup = Some (finalize (new_ConfigGroup ''plain'')),
      InstanceConfigGroup = None, instanceEntrypoint = None\<rparr>"

definition web_plugin :: pluginInfo where
  "web_plugin =
     \<lparr>name = ''web'', MasterConfigGroup = None,
      InstanceConfigGroup = Some (finalize (new_PluginConfigGroup ''web'')),
      instanceEntrypoint = None\<rparr>"

definition master_named_plugin :: pluginInfo where
  "master_named_plugin =
     \<lparr>name = ''master'', MasterConfigGroup = None, InstanceConfigGroup = None,
      instanceEntrypoint = None\<rparr>"

subsection \<open>The config command\<close>

text \<open>
  The errors an instance method can throw: the two classes that
  \<open>handleConfigCommand\<close> tests with \<open>instanceof\<close>, and anything else. The string is
  \<open>err.message\<close>.
\<close>

datatype exn = InvalidField string | InvalidValue string | OtherError string

text \<open>
  The \<open>instance\<close> argument: an object of a \<open>Config\<close> class, given by its methods
  over its state \<open>'s\<close>. \<open>get\<close> and \<open>serialize\<close> return or throw; \<open>set\<close> may
  change the state and may throw; \<open>constructor_groups\<close> is
  \<open>instance.constructor.groups.values()\<close>.
\<close>

record 's config_instance =
  constructor_groups :: "group list"
  inst_get :: "'s \<Rightarrow> jsval \<Rightarrow> exn + jsval"
  inst_set :: "'s \<Rightarrow> jsval \<Rightarrow> jsval \<Rightarrow> exn option \<times> 's"
  inst_serialize :: "'s \<Rightarrow> exn + jsval"

text \<open>The yargs result: \<open>args._\<close>, \<open>args.field\<close> and \<open>args.value\<close>.\<close>

record args =
  underscore :: "jsval list"
  field_arg :: jsval
  value_arg :: jsval

text \<open>What \<open>console.log\<close> was given: a value, or a string built by a template.\<close>

datatype printed = Value jsval | Text string

text \<open>The calls made on the instance, in order (auxiliary).\<close>

datatype instance_call = GetCall jsval | SetCall jsval jsval | SerializeCall

text \<open>
  Everything the command can change: the \<open>args\<close> object, the state of the instance,
  the two console streams and the files, a map from paths to contents.
\<close>

record 's machine =
  args :: args
  inst :: 's
  console_log :: "printed list"
  console_error :: "string list"
  files :: "string \<rightharpoonup> string"
  calls :: "instance_call list"

text \<open>
  What the command uses of the platform. \<open>JSON_stringify v n\<close> is
  \<open>JSON.stringify\<close> of \<open>v\<close> with indentation \<open>n\<close>: the text, or a throw.
  \<open>outputFile_error path text fs\<close> says whether \<open>fs.outputFile(path, text)\<close> is
  rejected when the files are \<open>fs\<close> (the path is a directory, the disk is full, ...),
  and with which error.
\<close>

record platform =
  JSON_stringify :: "jsval \<Rightarrow> nat \<Rightarrow> exn + string"
  outputFile_error :: "string \<Rightarrow> string \<Rightarrow> (string \<rightharpoonup> string) \<Rightarrow> exn option"

text \<open>
  \<open>await fs.outputFile(path, text)\<close>: rejected with the error and nothing written, or
  the text is the content of the path afterwards.
\<close>

definition outputFile :: "platform \<Rightarrow> string \<Rightarrow> string \<Rightarrow> 's machine \<Rightarrow> exn + 's machine" where
  "outputFile sys path text m =
     (case outputFile_error sys path text (files m) of
        Some err \<Rightarrow> Inl err
      | None \<Rightarrow> Inr (m\<lparr>files := (files m)(path \<mapsto> text)\<rparr>))"

text \<open>\<open>xs[i]\<close> on an array: \<open>undefined\<close> out of range.\<close>

definition js_index :: "jsval list \<Rightarrow> nat \<Rightarrow> jsval" where
  "js_index xs i = (if i < length xs then xs ! i else JUndefined)"

text \<open>
  Modelled from the spec: \<open>def.fullName\<close>, a property that \<open>./classes\<close> gives a
  definition (section 3): \<open>groupName + "." + name\<close>.
\<close>

definition fullName :: "group \<Rightarrow> field_def \<Rightarrow> string" where
  "fullName g d = groupName g @ ''.'' @ field_name d"

text \<open>
  The two nested loops of \<open>list\<close> visit the definitions of all groups in order.
\<close>

definition listed_names :: "group list \<Rightarrow> string list" where
  "listed_names gs = concat (map (\<lambda>g. map (fullName g) (definitions g)) gs)"

text \<open>
  The body of the loops of \<open>list\<close> over the full names: \<open>get\<close>, then
  \<open>console.log\<close> of the name and the JSON of the value. A throw of \<open>get\<close> or of
  \<open>JSON.stringify\<close> ends the loops; nothing catches it.
\<close>

fun list_fields ::
  "platform \<Rightarrow> 's config_instance \<Rightarrow> string list \<Rightarrow> 's machine
     \<Rightarrow> exn option \<times> 's machine" where
  "list_fields sys obj [] m = (None, m)"
| "list_fields sys obj (n # ns) m =
     (let m1 = m\<lparr>calls := calls m @ [GetCall (JStr n)]\<rparr>
      in case inst_get obj (inst m1) (JStr n) of
           Inl err \<Rightarrow> (Some err, m1)
         | Inr v \<Rightarrow>
             (case JSON_stringify sys v 0 of
                Inl err \<Rightarrow> (Some err, m1)
              | Inr text \<Rightarrow>
                  list_fields sys obj ns
                    (m1\<lparr>console_log := console_log m1 @ [Text (n @ '' '' @ text)]\<rparr>)))"

text \<open>\<open>show\<close> (lines 315 to 324).\<close>

definition show_field :: "'s config_instance \<Rightarrow> 's machine \<Rightarrow> exn option \<times> 's machine" where
  "show_field obj m =
     (let m1 = m\<lparr>calls := calls m @ [GetCall (field_arg (args m))]\<rparr>
      in case inst_get obj (inst m1) (field_arg (args m1)) of
           Inr v \<Rightarrow> (None, m1\<lparr>console_log := console_log m1 @ [Value v]\<rparr>)
         | Inl err \<Rightarrow>
             (case err of
                InvalidField msg \<Rightarrow> (None, m1\<lparr>console_error := console_error m1 @ [msg]\<rparr>)
              | InvalidValue msg \<Rightarrow> (Some err, m1)
              | OtherError msg \<Rightarrow> (Some err, m1)))"

text \<open>
  The \<open>catch\<close> of \<open>set\<close> (lines 334 to 340): an InvalidField or InvalidValue has
  its message reported and is not thrown on; any other error is thrown again.
\<close>

definition catch_set :: "exn \<Rightarrow> 's machine \<Rightarrow> exn option \<times> 's machine" where
  "catch_set err m =
     (case err of
        InvalidField msg \<Rightarrow> (None, m\<lparr>console_error := console_error m @ [msg]\<rparr>)
      | InvalidValue msg \<Rightarrow> (None, m\<lparr>console_error := console_error m @ [msg]\<rparr>)
      | OtherError msg \<Rightarrow> (Some err, m))"

text \<open>
  The second statement of the \<open>try\<close> (line 333): \<open>instance.serialize()\<close>, then
  \<open>JSON.stringify\<close> of the result with indentation 4, then the awaited
  \<open>fs.outputFile\<close>. Each of the three can throw.
\<close>

definition write_config ::
  "platform \<Rightarrow> 's config_instance \<Rightarrow> string \<Rightarrow> 's machine \<Rightarrow> exn + 's machine" where
  "write_config sys obj configPath m =
     (let m1 = m\<lparr>calls := calls m @ [SerializeCall]\<rparr>
      in case inst_serialize obj (inst m1) of
           Inl err \<Rightarrow> Inl err
         | Inr doc \<Rightarrow>
             (case JSON_stringify sys doc 4 of
                Inl err \<Rightarrow> Inl err
              | Inr text \<Rightarrow> outputFile sys configPath text m1))"

text \<open>
  \<open>set\<close> (lines 326 to 341): an undefined value becomes \<open>null\<close>; then, inside the
  \<open>try\<close>, \<open>instance.set\<close> and the write of the config. Whatever is thrown inside
  the \<open>try\<close> goes to the \<open>catch\<close>; the state is the one at the throw.
\<close>

definition set_field ::
  "platform \<Rightarrow> 's config_instance \<Rightarrow> string \<Rightarrow> 's machine
     \<Rightarrow> exn option \<times> 's machine" where
  "set_field sys obj configPath m =
     (let m1 = (if value_arg (args m) = JUndefined
                then m\<lparr>args := (args m)\<lparr>value_arg := JNull\<rparr>\<rparr> else m);
          m2 = m1\<lparr>calls := calls m1 @ [SetCall (field_arg (args m1)) (value_arg (args m1))]\<rparr>
      in case inst_set obj (inst m2) (field_arg (args m2)) (value_arg (args m2)) of
           (Some err, s) \<Rightarrow> catch_set err (m2\<lparr>inst := s\<rparr>)
         | (None, s) \<Rightarrow>
             (case write_config sys obj configPath (m2\<lparr>inst := s\<rparr>) of
                Inl err \<Rightarrow>
                  catch_set err (m2\<lparr>inst := s, calls := calls m2 @ [SerializeCall]\<rparr>)
              | Inr m3 \<Rightarrow> (None, m3)))"

text \<open>
  \<open>handleConfigCommand\<close> (lines 304 to 342): the command is \<open>args._[1]\<close>, compared
  with \<open>===\<close>. The result is the rejection of the returned promise, if any, and the
  state.
\<close>

definition handleConfigCommand ::
  "platform \<Rightarrow> 's config_instance \<Rightarrow> string \<Rightarrow> 's machine
     \<Rightarrow> exn option \<times> 's machine" where
  "handleConfigCommand sys obj configPath m =
     (let command = js_index (underscore (args m)) 1
      in if command = JStr ''list'' then
           list_fields sys obj (listed_names (constructor_groups obj)) m
         else if command = JStr ''show'' then show_field obj m
         else if command = JStr ''set'' then set_field sys obj configPath m
         else (None, m))"

text \<open>
  An instance for the examples: two fields of the master group, the values kept by full
  name. \<open>get\<close> and \<open>set\<close> throw \<open>InvalidField\<close> for an unknown name, \<open>set\<close>
  throws \<open>InvalidValue\<close> for \<open>null\<close> on the field that is not optional, and a
  field name that is not a string is some other error.
\<close>

definition sample_groups :: "group list" where
  "sample_groups =
     [\<lparr>groupName = ''master'',
       definitions =
         [\<lparr>field_name = ''http_port'', field_type = TNumber, optional = True,
            initial_value = NoInitial\<rparr>,
          \<lparr>field_name = ''web_root'', field_type = TString, optional = False,
            initial_value = Literal (JStr ''/'')\<rparr>],
       locked = True, plugin_extensible = False\<rparr>]"

definition sample_get :: "(string \<times> jsval) list \<Rightarrow> jsval \<Rightarrow> exn + jsval" where
  "sample_get s f =
     (case f of
        JStr n \<Rightarrow>
          (case map_of s n of
             Some v \<Rightarrow> Inr v
           | None \<Rightarrow> Inl (InvalidField (''No field named '' @ n)))
      | _ \<Rightarrow> Inl (OtherError ''field is not a string''))"

definition sample_set ::
  "(string \<times> jsval) list \<Rightarrow> jsval \<Rightarrow> jsval \<Rightarrow> exn option \<times> (string \<times> jsval) list" where
  "sample_set s f v =
     (case f of
        JStr n \<Rightarrow>
          (case map_of s n of
             None \<Rightarrow> (Some (InvalidField (''No field named '' @ n)), s)
           | Some old \<Rightarrow>
               if v = JNull \<and> n \<noteq> ''master.http_port''
               then (Some (InvalidValue (''Field cannot be null: '' @ n)), s)
               else (None, map (\<lambda>(k, x). if k = n then (k, v) else (k, x)) s))
      | _ \<Rightarrow> (Some (OtherError ''field is not a string''), s))"

definition sample_instance :: "(string \<times> jsval) list config_instance" where
  "sample_instance =
     \<lparr>constructor_groups = sample_groups, inst_get = sample_get, inst_set = sample_set,
      inst_serialize = (\<lambda>s. Inr (JObj s))\<rparr>"

text \<open>
  A platform for the examples: a stand-in for \<open>JSON.stringify\<close>, and files among
  which the path \<open>database\<close> is a directory, so that a write to it is rejected.
\<close>

definition sample_stringify :: "jsval \<Rightarrow> nat \<Rightarrow> exn + string" where
  "sample_stringify v n =
     Inr (case v of JNull \<Rightarrow> ''null'' | JBool True \<Rightarrow> ''true'' | JBool False \<Rightarrow> ''false''
          | JStr s \<Rightarrow> s | _ \<Rightarrow> ''{}'')"

definition sample_platform :: platform where
  "sample_platform =
     \<lparr>JSON_stringify = sample_stringify,
      outputFile_error = (\<lambda>path text fs.
        if path = ''database''
        then Some (OtherError ''EISDIR: illegal operation on a directory'')
        else None)\<rparr>"

text \<open>
  A run of the command on the sample instance: the words of the command line, the
  \<open>field\<close> and the \<open>value\<close>; nothing printed or written yet.
\<close>

definition sample_run :: "jsval list \<Rightarrow> jsval \<Rightarrow> jsval \<Rightarrow> (string \<times> jsval) list machine" where
  "sample_run words f v =
     \<lparr>args = \<lparr>underscore = words, field_arg = f, value_arg = v\<rparr>,
      inst = [(''master.http_port'', JNum 8080), (''master.web_root'', JStr ''/'')],
      console_log = [], console_error = [], files = Map.empty, calls = []\<rparr>"

section \<open>Properties\<close>

subsection \<open>Sequencing and validation\<close>

lemma and_then_None [simp]: "and_then (None, w) f = f w"
  by (simp add: and_then_def)

lemma and_then_Some [simp]: "and_then (Some e, w) f = (Some e, w)"
  by (simp add: and_then_def)

lemma and_then_assoc:
  "and_then (and_then r f) g = and_then r (\<lambda>w. and_then (f w) g)"
  by (cases r; cases "fst r") (auto simp: and_then_def)

lemma registerPluginConfigGroups_append:
  "registerPluginConfigGroups (ps @ qs) w =
     and_then (registerPluginConfigGroups ps w) (registerPluginConfigGroups qs)"
proof (induction ps arbitrary: w)
  case Nil
  show ?case by simp
next
  case (Cons p ps)
  show ?case
    by (cases "register_plugin p w"; cases "fst (register_plugin p w)")
       (auto simp: Cons.IH)
qed

lemma validateGroup_Master:
  "MasterConfigGroup p = Some g \<Longrightarrow>
   validateGroup p ''MasterConfigGroup'' =
     (if groupName g \<noteq> name p
      then Inl (NotNamedAfterPlugin ''MasterConfigGroup'' (name p)) else Inr ())"
  by (simp add: validateGroup_def property_def js_not_def)

lemma validateGroup_Instance:
  "InstanceConfigGroup p = Some g \<Longrightarrow>
   validateGroup p ''InstanceConfigGroup'' =
     (if groupName g \<noteq> name p
      then Inl (NotNamedAfterPlugin ''InstanceConfigGroup'' (name p)) else Inr ())"
  by (simp add: validateGroup_def property_def js_not_def)

lemma validateGroup_no_capability_error:
  "validateGroup p k \<noteq> Inl (NotPluginConfigGroup a b)"
  by (simp add: validateGroup_def js_not_def split: operand.splits)

lemma module_init_ok: "fst module_init = None"
  by code_simp

subsection \<open>The effect of one registration step\<close>

lemma call_registerGroup_events:
  "events (snd (call_registerGroup k og g w)) = events w @ [RegisterCall k og g]"
  by (cases k) (simp_all add: call_registerGroup_def set_config_def Let_def split: sum.splits)

lemma call_registerGroup_Master:
  "call_registerGroup MasterK og g w = (None, w') \<Longrightarrow>
     w' = w\<lparr>events := events w @ [RegisterCall MasterK og g],
            MasterConfig := (MasterConfig w)\<lparr>groups := groups (MasterConfig w) @ [g]\<rparr>\<rparr>
     \<and> groupName g \<notin> set (map groupName (groups (MasterConfig w)))"
  by (auto simp: call_registerGroup_def registerGroup_def config_of_def set_config_def Let_def
           split: if_splits)

lemma call_registerGroup_Instance:
  "call_registerGroup InstanceK og g w = (None, w') \<Longrightarrow>
     w' = w\<lparr>events := events w @ [RegisterCall InstanceK og g],
            InstanceConfig := (InstanceConfig w)\<lparr>groups := groups (InstanceConfig w) @ [g]\<rparr>\<rparr>
     \<and> groupName g \<notin> set (map groupName (groups (InstanceConfig w)))"
  by (auto simp: call_registerGroup_def registerGroup_def config_of_def set_config_def Let_def
           split: if_splits)

lemma call_registerGroup_Some:
  "call_registerGroup k og g w = (Some e, w') \<Longrightarrow>
     w' = w\<lparr>events := events w @ [RegisterCall k og g]\<rparr>"
  by (auto simp: call_registerGroup_def Let_def split: sum.splits)

lemma register_master_None:
  assumes "register_master p w = (None, w')"
  shows "groups (MasterConfig w') = groups (MasterConfig w) @
           [case MasterConfigGroup p of Some g \<Rightarrow> g
            | None \<Rightarrow> finalize (new_PluginConfigGroup (name p))]"
    and "config_locked (MasterConfig w') = config_locked (MasterConfig w)"
    and "InstanceConfig w' = InstanceConfig w"
    and "SlaveConfig w' = SlaveConfig w"
    and "name p \<notin> set (map groupName (groups (MasterConfig w)))"
    and "MasterConfigGroup p = Some g \<Longrightarrow> groupName g = name p"
  using assms
  by (auto simp: register_master_def validateGroup_Master call_finalize_def finalize_def
                 new_PluginConfigGroup_def
           split: option.splits sum.splits if_splits dest!: call_registerGroup_Master)

lemma register_master_Some:
  assumes "register_master p w = (Some e, w')"
  shows "MasterConfig w' = MasterConfig w" and "InstanceConfig w' = InstanceConfig w"
    and "SlaveConfig w' = SlaveConfig w"
  using assms
  by (auto simp: register_master_def call_finalize_def
           split: option.splits sum.splits dest!: call_registerGroup_Some)

lemma register_instance_None:
  assumes "register_instance p w = (None, w')"
  shows "groups (InstanceConfig w') = groups (InstanceConfig w) @
           (if truthy (property p ''instanceEntrypoint'')
            then [case InstanceConfigGroup p of Some g \<Rightarrow> g
                  | None \<Rightarrow> finalize (new_PluginConfigGroup (name p))]
            else [])"
    and "MasterConfig w' = MasterConfig w"
    and "SlaveConfig w' = SlaveConfig w"
  using assms
  by (auto simp: register_instance_def call_finalize_def
           split: option.splits sum.splits if_splits dest!: call_registerGroup_Instance)

lemma register_instance_Some:
  assumes "register_instance p w = (Some e, w')"
  shows "MasterConfig w' = MasterConfig w" and "InstanceConfig w' = InstanceConfig w"
    and "SlaveConfig w' = SlaveConfig w"
  using assms
  by (auto simp: register_instance_def call_finalize_def
           split: option.splits sum.splits if_splits dest!: call_registerGroup_Some)

lemma register_instance_no_entrypoint:
  "\<not> truthy (property p ''instanceEntrypoint'') \<Longrightarrow> register_instance p w = (None, w)"
  by (simp add: register_instance_def)


lemma register_plugin_None:
  assumes "register_plugin p w = (None, w')"
  shows "groups (MasterConfig w') = groups (MasterConfig w) @ [master_group p]"
    and "groups (InstanceConfig w') = groups (InstanceConfig w) @
           (if truthy (property p ''instanceEntrypoint'') then [instance_group p] else [])"
    and "name p \<notin> set (map groupName (groups (MasterConfig w)))"
    and "groupName (master_group p) = name p"
proof -
  obtain w1 where m: "register_master p w = (None, w1)" and i: "register_instance p w1 = (None, w')"
    using assms
    by (cases "register_master p w"; cases "fst (register_master p w)")
       (auto simp: register_plugin_def)
  show "groups (MasterConfig w') = groups (MasterConfig w) @ [master_group p]"
    using register_master_None(1)[OF m] register_instance_None(2)[OF i]
    by (simp add: master_group_def)
  show "groups (InstanceConfig w') = groups (InstanceConfig w) @
           (if truthy (property p ''instanceEntrypoint'') then [instance_group p] else [])"
    using register_master_None(3)[OF m] register_instance_None(1)[OF i]
    by (simp add: instance_group_def)
  show "name p \<notin> set (map groupName (groups (MasterConfig w)))"
    by (rule register_master_None(5)[OF m])
  show "groupName (master_group p) = name p"
    using register_master_None(6)[OF m]
    by (cases "MasterConfigGroup p")
       (simp_all add: master_group_def finalize_def new_PluginConfigGroup_def)
qed

lemma register_plugin_Some:
  assumes "register_plugin p w = (Some e, w')"
  shows "InstanceConfig w' = InstanceConfig w"
proof (cases "register_master p w")
  case (Pair r w1)
  show ?thesis
  proof (cases r)
    case None
    with Pair assms have "register_instance p w1 = (Some e, w')"
      by (simp add: register_plugin_def)
    then show ?thesis
      using register_instance_Some(2) register_master_None(3) Pair None by metis
  next
    case (Some e')
    with Pair assms have "w' = w1" by (simp add: register_plugin_def)
    then show ?thesis using register_master_Some(2) Pair Some by metis
  qed
qed

lemma registered_groups:
  assumes "registerPluginConfigGroups ps w = (None, w')"
  shows "groups (MasterConfig w') = groups (MasterConfig w) @ map master_group ps"
    and "groups (InstanceConfig w') = groups (InstanceConfig w) @
           map instance_group (filter (\<lambda>p. truthy (property p ''instanceEntrypoint'')) ps)"
    and "\<forall>p \<in> set ps. groupName (master_group p) = name p"
  using assms
proof (induction ps arbitrary: w)
  case Nil
  {
    case 1 then show ?case by simp
  next
    case 2 then show ?case by simp
  next
    case 3 then show ?case by simp
  }
next
  case (Cons p ps)
  {
    case 1
    obtain w1 where one: "register_plugin p w = (None, w1)"
      and rest: "registerPluginConfigGroups ps w1 = (None, w')"
      using 1
      by (cases "register_plugin p w"; cases "fst (register_plugin p w)") auto
    show ?case
      using Cons.IH(1)[OF rest] register_plugin_None(1)[OF one] by simp
  next
    case 2
    obtain w1 where one: "register_plugin p w = (None, w1)"
      and rest: "registerPluginConfigGroups ps w1 = (None, w')"
      using 2
      by (cases "register_plugin p w"; cases "fst (register_plugin p w)") auto
    show ?case
      using Cons.IH(2)[OF rest] register_plugin_None(2)[OF one] by simp
  next
    case 3
    obtain w1 where one: "register_plugin p w = (None, w1)"
      and rest: "registerPluginConfigGroups ps w1 = (None, w')"
      using 3
      by (cases "register_plugin p w"; cases "fst (register_plugin p w)") auto
    show ?case
      using Cons.IH(3)[OF rest] register_plugin_None(4)[OF one] by simp
  }
qed

lemma registered_names_fresh:
  assumes "registerPluginConfigGroups ps w = (None, w')"
  shows "distinct (map name ps)
       \<and> set (map name ps) \<inter> set (map groupName (groups (MasterConfig w))) = {}"
  using assms
proof (induction ps arbitrary: w)
  case Nil
  then show ?case by simp
next
  case (Cons p ps)
  obtain w1 where one: "register_plugin p w = (None, w1)"
    and rest: "registerPluginConfigGroups ps w1 = (None, w')"
    using Cons.prems
    by (cases "register_plugin p w"; cases "fst (register_plugin p w)") auto
  have names1: "map groupName (groups (MasterConfig w1)) =
      map groupName (groups (MasterConfig w)) @ [name p]"
    using register_plugin_None(1,4)[OF one] by simp
  have fresh: "name p \<notin> set (map groupName (groups (MasterConfig w)))"
    by (rule register_plugin_None(3)[OF one])
  from Cons.IH[OF rest] have d: "distinct (map name ps)"
    and i: "set (map name ps) \<inter> set (map groupName (groups (MasterConfig w1))) = {}"
    by simp_all
  from i names1 have np: "name p \<notin> set (map name ps)"
    and i0: "set (map name ps) \<inter> set (map groupName (groups (MasterConfig w))) = {}"
    by auto
  show ?case using d np i0 fresh by auto
qed

lemma filter_none: "x \<notin> set (map f xs) \<Longrightarrow> filter (\<lambda>y. f y = x) xs = []"
  by (induction xs) auto

lemma count_one:
  "distinct (map f xs) \<Longrightarrow> x \<in> set xs \<Longrightarrow> length (filter (\<lambda>y. f y = f x) xs) = 1"
proof (induction xs)
  case Nil
  then show ?case by simp
next
  case (Cons a xs)
  show ?case
  proof (cases "x = a")
    case True
    have "f a \<notin> f ` set xs" using Cons.prems(1) by simp
    then have "\<forall>y \<in> set xs. f y \<noteq> f a" by (metis imageI)
    then have "filter (\<lambda>y. f y = f a) xs = []"
      by (induction xs) auto
    with True show ?thesis by simp
  next
    case False
    with Cons.prems have "x \<in> set xs" and "f a \<noteq> f x" by auto
    with Cons show ?thesis by simp
  qed
qed

lemma instance_groups_prefix:
  "\<exists>n. groups (InstanceConfig (snd (registerPluginConfigGroups ps w))) =
     groups (InstanceConfig w) @
       map instance_group (take n (filter (\<lambda>p. truthy (property p ''instanceEntrypoint'')) ps))"
proof (induction ps arbitrary: w)
  case Nil
  show ?case by simp
next
  case (Cons p ps)
  show ?case
  proof (cases "register_plugin p w")
    case (Pair r w1)
    show ?thesis
    proof (cases r)
      case None
      from Cons.IH[of w1] obtain n where
        n: "groups (InstanceConfig (snd (registerPluginConfigGroups ps w1))) =
            groups (InstanceConfig w1) @
              map instance_group
                (take n (filter (\<lambda>p. truthy (property p ''instanceEntrypoint'')) ps))"
        by blast
      have step: "groups (InstanceConfig w1) = groups (InstanceConfig w) @
           (if truthy (property p ''instanceEntrypoint'') then [instance_group p] else [])"
        using register_plugin_None(2) Pair None by blast
      show ?thesis
      proof (cases "truthy (property p ''instanceEntrypoint'')")
        case True
        with n step Pair None show ?thesis
          by (intro exI[of _ "Suc n"]) simp
      next
        case False
        with n step Pair None show ?thesis
          by (intro exI[of _ n]) simp
      qed
    next
      case (Some e)
      with Pair have "InstanceConfig w1 = InstanceConfig w"
        using register_plugin_Some by blast
      with Pair Some show ?thesis
        by (intro exI[of _ 0]) simp
    qed
  qed
qed

subsection \<open>The order of the calls\<close>

lemma finalized_first_mono:
  "finalized_first fs es \<Longrightarrow> set fs \<subseteq> set fs' \<Longrightarrow> finalized_first fs' es"
proof (induction fs es arbitrary: fs' rule: finalized_first.induct)
  case (1 fs)
  show ?case by simp
next
  case (2 fs g es)
  from "2.prems" have "finalized_first (g # fs) es" and "set (g # fs) \<subseteq> set (g # fs')"
    by auto
  then have "finalized_first (g # fs') es" by (rule "2.IH")
  then show ?case by simp
next
  case (3 fs k g es)
  then show ?case by auto
next
  case (4 fs k g es)
  then show ?case by auto
qed

lemma finalized_first_append:
  "finalized_first fs xs \<Longrightarrow> (\<And>fs'. set fs \<subseteq> set fs' \<Longrightarrow> finalized_first fs' ys)
     \<Longrightarrow> finalized_first fs (xs @ ys)"
proof (induction fs xs rule: finalized_first.induct)
  case (1 fs)
  then show ?case by simp
next
  case (2 fs g es)
  have "finalized_first (g # fs) (es @ ys)"
  proof (rule "2.IH")
    show "finalized_first (g # fs) es" using "2.prems"(1) by simp
    show "finalized_first fs' ys" if "set (g # fs) \<subseteq> set fs'" for fs'
      using that by (intro "2.prems"(2)) auto
  qed
  then show ?case by simp
next
  case (3 fs k g es)
  then show ?case by simp
next
  case (4 fs k g es)
  then show ?case by simp
qed

lemma finalized_first_sound:
  "finalized_first fs es \<Longrightarrow> i < length es \<Longrightarrow> es ! i = RegisterCall k Own g
     \<Longrightarrow> g \<in> set fs \<or> (\<exists>j<i. es ! j = FinalizeCall g)"
proof (induction fs es arbitrary: i rule: finalized_first.induct)
  case (1 fs)
  then show ?case by simp
next
  case (2 fs g0 es)
  from "2.prems"(2,3) obtain i' where i: "i = Suc i'"
    by (cases i) auto
  with "2.prems" have "finalized_first (g0 # fs) es" "i' < length es" "es ! i' = RegisterCall k Own g"
    by auto
  from "2.IH"[OF this] have "g \<in> set (g0 # fs) \<or> (\<exists>j<i'. es ! j = FinalizeCall g)" .
  then show ?case
  proof
    assume "g \<in> set (g0 # fs)"
    then show ?thesis
    proof (cases "g = g0")
      case True
      have "0 < i \<and> (FinalizeCall g0 # es) ! 0 = FinalizeCall g" using i True by simp
      then show ?thesis by blast
    next
      case False
      with \<open>g \<in> set (g0 # fs)\<close> show ?thesis by simp
    qed
  next
    assume "\<exists>j<i'. es ! j = FinalizeCall g"
    then obtain j where "j < i'" "es ! j = FinalizeCall g" by blast
    then have "Suc j < i \<and> (FinalizeCall g0 # es) ! Suc j = FinalizeCall g" using i by simp
    then show ?thesis by blast
  qed
next
  case (3 fs k0 g0 es)
  show ?case
  proof (cases i)
    case 0
    with "3.prems" show ?thesis by simp
  next
    case (Suc i')
    with "3.prems" have "finalized_first fs es" "i' < length es" "es ! i' = RegisterCall k Own g"
      by auto
    from "3.IH"[OF this] show ?thesis
    proof
      assume "g \<in> set fs" then show ?thesis by simp
    next
      assume "\<exists>j<i'. es ! j = FinalizeCall g"
      then obtain j where "j < i'" "es ! j = FinalizeCall g" by blast
      then have "Suc j < i \<and> (RegisterCall k0 Own g0 # es) ! Suc j = FinalizeCall g"
        using Suc by simp
      then show ?thesis by blast
    qed
  qed
next
  case (4 fs k0 g0 es)
  show ?case
  proof (cases i)
    case 0
    with "4.prems" show ?thesis by simp
  next
    case (Suc i')
    with "4.prems" have "finalized_first fs es" "i' < length es" "es ! i' = RegisterCall k Own g"
      by auto
    from "4.IH"[OF this] show ?thesis
    proof
      assume "g \<in> set fs" then show ?thesis by simp
    next
      assume "\<exists>j<i'. es ! j = FinalizeCall g"
      then obtain j where "j < i'" "es ! j = FinalizeCall g" by blast
      then have "Suc j < i \<and> (RegisterCall k0 Supplied g0 # es) ! Suc j = FinalizeCall g"
        using Suc by simp
      then show ?thesis by blast
    qed
  qed
qed

lemma register_master_events:
  "finalized_first [] (events w) \<Longrightarrow> finalized_first [] (events (snd (register_master p w)))"
proof (cases "MasterConfigGroup p")
  case None
  assume inv: "finalized_first [] (events w)"
  have "events (snd (register_master p w)) =
      events w @ [FinalizeCall (finalize (new_PluginConfigGroup (name p))),
                  RegisterCall MasterK Own (finalize (new_PluginConfigGroup (name p)))]"
    using None by (simp add: register_master_def call_finalize_def call_registerGroup_events)
  moreover have "finalized_first []
     (events w @ [FinalizeCall (finalize (new_PluginConfigGroup (name p))),
                  RegisterCall MasterK Own (finalize (new_PluginConfigGroup (name p)))])"
    using inv by (rule finalized_first_append) simp
  ultimately show ?thesis by simp
next
  case (Some g)
  assume inv: "finalized_first [] (events w)"
  have "events (snd (register_master p w)) = events w
      \<or> events (snd (register_master p w)) = events w @ [RegisterCall MasterK Supplied g]"
    using Some
    by (simp add: register_master_def call_registerGroup_events split: sum.splits)
  moreover have "finalized_first [] (events w @ [RegisterCall MasterK Supplied g])"
    using inv by (rule finalized_first_append) simp
  ultimately show ?thesis using inv by auto
qed

lemma register_instance_events:
  "finalized_first [] (events w) \<Longrightarrow> finalized_first [] (events (snd (register_instance p w)))"
proof (cases "truthy (property p ''instanceEntrypoint'')")
  case False
  assume "finalized_first [] (events w)"
  with False show ?thesis by (simp add: register_instance_def)
next
  case True
  assume inv: "finalized_first [] (events w)"
  show ?thesis
  proof (cases "InstanceConfigGroup p")
    case None
    have "events (snd (register_instance p w)) =
        events w @ [FinalizeCall (finalize (new_PluginConfigGroup (name p))),
                    RegisterCall InstanceK Own (finalize (new_PluginConfigGroup (name p)))]"
      using None True
      by (simp add: register_instance_def call_finalize_def call_registerGroup_events)
    moreover have "finalized_first []
       (events w @ [FinalizeCall (finalize (new_PluginConfigGroup (name p))),
                    RegisterCall InstanceK Own (finalize (new_PluginConfigGroup (name p)))])"
      using inv by (rule finalized_first_append) simp
    ultimately show ?thesis by simp
  next
    case (Some g)
    have "events (snd (register_instance p w)) = events w
        \<or> events (snd (register_instance p w)) = events w @ [RegisterCall InstanceK Supplied g]"
      using Some True
      by (simp add: register_instance_def call_registerGroup_events split: sum.splits)
    moreover have "finalized_first [] (events w @ [RegisterCall InstanceK Supplied g])"
      using inv by (rule finalized_first_append) simp
    ultimately show ?thesis using inv by auto
  qed
qed

lemma register_plugin_events:
  assumes "finalized_first [] (events w)"
  shows "finalized_first [] (events (snd (register_plugin p w)))"
proof (cases "register_master p w")
  case (Pair r w1)
  have m: "finalized_first [] (events w1)"
    using register_master_events[OF assms, of p] Pair by simp
  show ?thesis
  proof (cases r)
    case None
    with Pair have "register_plugin p w = register_instance p w1"
      by (simp add: register_plugin_def)
    then show ?thesis using register_instance_events[OF m, of p] by simp
  next
    case (Some e)
    with Pair have "register_plugin p w = (Some e, w1)"
      by (simp add: register_plugin_def)
    then show ?thesis using m by simp
  qed
qed

lemma registerPluginConfigGroups_events:
  "finalized_first [] (events w)
     \<Longrightarrow> finalized_first [] (events (snd (registerPluginConfigGroups ps w)))"
proof (induction ps arbitrary: w)
  case Nil
  then show ?case by simp
next
  case (Cons p ps)
  show ?case
  proof (cases "register_plugin p w")
    case (Pair r w1)
    have s: "finalized_first [] (events w1)"
      using register_plugin_events[OF Cons.prems, of p] Pair by simp
    show ?thesis
    proof (cases r)
      case None
      with Pair show ?thesis using Cons.IH[OF s] by simp
    next
      case (Some e)
      with Pair show ?thesis using s by simp
    qed
  qed
qed

lemma loaded_events: "finalized_first [] (events loaded)"
  by code_simp

subsection \<open>Validation of supplied groups\<close>

text \<open>
  Claim C1: a descriptor that supplies a MasterConfigGroup which is not an instance of
  PluginConfigGroup makes registration fail, and the group is not registered. The code
  does otherwise. The first test of \<open>validateGroup\<close> applies \<open>instanceof\<close> to the
  negated value, a boolean, so it never holds (\<open>validateGroup_no_capability_error\<close>).
  For \<open>plain_plugin\<close>, whose master group extends \<open>ConfigGroup\<close> only and is named
  after the plugin, registration completes and the group is in \<open>MasterConfig\<close>; and
  for no descriptor does \<open>validateGroup\<close> throw its first error.
\<close>

theorem C1_unextensible_group_is_registered:
  "MasterConfigGroup plain_plugin = Some (finalize (new_ConfigGroup ''plain''))
   \<and> \<not> instanceof_PluginConfigGroup (GroupClass (finalize (new_ConfigGroup ''plain'')))
   \<and> fst (registerPluginConfigGroups [plain_plugin] loaded) = None
   \<and> finalize (new_ConfigGroup ''plain'')
       \<in> set (groups (MasterConfig (snd (registerPluginConfigGroups [plain_plugin] loaded))))
   \<and> (\<forall>p k a b. validateGroup p k \<noteq> Inl (NotPluginConfigGroup a b))"
proof -
  have run: "MasterConfigGroup plain_plugin = Some (finalize (new_ConfigGroup ''plain''))
   \<and> \<not> instanceof_PluginConfigGroup (GroupClass (finalize (new_ConfigGroup ''plain'')))
   \<and> fst (registerPluginConfigGroups [plain_plugin] loaded) = None
   \<and> finalize (new_ConfigGroup ''plain'')
       \<in> set (groups (MasterConfig (snd (registerPluginConfigGroups [plain_plugin] loaded))))"
    by code_simp
  then show ?thesis
    using validateGroup_no_capability_error by blast
qed

text \<open>
  Claim C2: for a descriptor whose \<open>MasterConfigGroup.groupName\<close> differs from its
  name, \<open>registerPluginConfigGroups\<close> throws before registering that descriptor's
  group; the error comes from the name check of \<open>validateGroup\<close> and the
  \<open>registerGroup\<close> call for the descriptor is not reached. For descriptors \<open>ps\<close>
  before it and \<open>qs\<close> after it: if the loop gets through \<open>ps\<close>, the call throws
  the name error and the state, with its list of \<open>registerGroup\<close> calls, is the
  one left by \<open>ps\<close>; if \<open>ps\<close> throws, that throw is the outcome. In both cases the
  call throws and nothing of the descriptor is registered.
\<close>

theorem C2_misnamed_master_group_throws:
  assumes "MasterConfigGroup p = Some g" and "groupName g \<noteq> name p"
  shows "registerPluginConfigGroups (ps @ p # qs) w =
     (case registerPluginConfigGroups ps w of
        (Some e, w') \<Rightarrow> (Some e, w')
      | (None, w') \<Rightarrow> (Some (NotNamedAfterPlugin ''MasterConfigGroup'' (name p)), w'))"
proof -
  have body: "register_plugin p w' =
      (Some (NotNamedAfterPlugin ''MasterConfigGroup'' (name p)), w')" for w'
    using assms by (simp add: register_plugin_def register_master_def validateGroup_Master)
  show ?thesis
    by (cases "registerPluginConfigGroups ps w"; cases "fst (registerPluginConfigGroups ps w)")
       (auto simp: registerPluginConfigGroups_append body)
qed

theorem C2_misnamed_master_group_throws_witness:
  "MasterConfigGroup stats_plugin = Some (finalize (new_PluginConfigGroup ''statistics''))
   \<and> groupName (finalize (new_PluginConfigGroup ''statistics'')) \<noteq> name stats_plugin
   \<and> registerPluginConfigGroups ([inventory_plugin] @ stats_plugin # [web_plugin]) loaded =
       (Some (NotNamedAfterPlugin ''MasterConfigGroup'' ''stats''),
        snd (registerPluginConfigGroups [inventory_plugin] loaded))"
proof -
  have h1: "MasterConfigGroup stats_plugin = Some (finalize (new_PluginConfigGroup ''statistics''))"
    by (simp add: stats_plugin_def)
  have h2: "groupName (finalize (new_PluginConfigGroup ''statistics'')) \<noteq> name stats_plugin"
    by (simp add: stats_plugin_def finalize_def new_PluginConfigGroup_def)
  have ok: "fst (registerPluginConfigGroups [inventory_plugin] loaded) = None"
    by code_simp
  have nm: "name stats_plugin = ''stats''"
    by (simp add: stats_plugin_def)
  show ?thesis
    using h1 h2 ok nm
      C2_misnamed_master_group_throws
        [OF h1 h2, where ps = "[inventory_plugin]" and w = loaded and qs = "[web_plugin]"]
    by (simp add: case_prod_unfold)
qed

subsection \<open>Synthesized master groups\<close>

text \<open>
  Claim C3, as stated: for every descriptor without a MasterConfigGroup a finalized, empty
  PluginConfigGroup named after the plugin is synthesized and registered into
  MasterConfig, so every plugin in the list ends up with exactly one group named after
  it. It fails where the call throws. In \<open>[stats_plugin, inventory_plugin]\<close> the
  first descriptor fails the name check, the loop ends, and \<open>inventory_plugin\<close>, which
  supplies no group, has none in \<open>MasterConfig\<close>. For \<open>master_named_plugin\<close> the
  group is synthesized, but \<open>registerGroup\<close> refuses the name of the base group.
\<close>

theorem C3_counterexample:
  "MasterConfigGroup inventory_plugin = None
   \<and> \<lparr>groupName = name inventory_plugin, definitions = [], locked = True,
        plugin_extensible = True\<rparr>
       \<notin> set (groups (MasterConfig
               (snd (registerPluginConfigGroups [stats_plugin, inventory_plugin] loaded))))
   \<and> length (filter (\<lambda>g. groupName g = name inventory_plugin)
         (groups (MasterConfig
            (snd (registerPluginConfigGroups [stats_plugin, inventory_plugin] loaded))))) = 0
   \<and> MasterConfigGroup master_named_plugin = None
   \<and> fst (registerPluginConfigGroups [master_named_plugin] loaded)
       = Some (DuplicateGroup ''master'')
   \<and> \<lparr>groupName = name master_named_plugin, definitions = [], locked = True,
        plugin_extensible = True\<rparr>
       \<notin> set (groups (MasterConfig
               (snd (registerPluginConfigGroups [master_named_plugin] loaded))))"
  by code_simp

text \<open>
  Claim C3, amended: when \<open>registerPluginConfigGroups\<close> returns without throwing,
  every descriptor of the list that supplies no MasterConfigGroup has a finalized, empty
  PluginConfigGroup named after the plugin in \<open>MasterConfig\<close>, and every plugin of the
  list has exactly one group named after it there. When the call throws, the outcome is
  that error and the state at the throw, whatever descriptors follow in the list: they
  get no group.
\<close>

theorem C3_every_plugin_has_one_master_group:
  "(registerPluginConfigGroups ps w = (None, w') \<longrightarrow>
      (\<forall>p \<in> set ps.
         (MasterConfigGroup p = None \<longrightarrow>
            \<lparr>groupName = name p, definitions = [], locked = True, plugin_extensible = True\<rparr>
              \<in> set (groups (MasterConfig w')))
         \<and> length (filter (\<lambda>g. groupName g = name p) (groups (MasterConfig w'))) = 1))
   \<and> (registerPluginConfigGroups ps w = (Some e, w') \<longrightarrow>
        registerPluginConfigGroups (ps @ qs) w = (Some e, w'))"
proof (intro conjI impI ballI)
  assume "registerPluginConfigGroups ps w = (Some e, w')"
  then show "registerPluginConfigGroups (ps @ qs) w = (Some e, w')"
    by (simp add: registerPluginConfigGroups_append)
next
  fix p
  assume ok: "registerPluginConfigGroups ps w = (None, w')" and p: "p \<in> set ps"
    and none: "MasterConfigGroup p = None"
  have "groups (MasterConfig w') = groups (MasterConfig w) @ map master_group ps"
    by (rule registered_groups(1)[OF ok])
  then have "master_group p \<in> set (groups (MasterConfig w'))"
    using p by simp
  moreover have "master_group p =
      \<lparr>groupName = name p, definitions = [], locked = True, plugin_extensible = True\<rparr>"
    using none by (simp add: master_group_def finalize_def new_PluginConfigGroup_def)
  ultimately show
    "\<lparr>groupName = name p, definitions = [], locked = True, plugin_extensible = True\<rparr>
       \<in> set (groups (MasterConfig w'))"
    by simp
next
  fix p
  assume ok: "registerPluginConfigGroups ps w = (None, w')" and p: "p \<in> set ps"
  have gs: "groups (MasterConfig w') = groups (MasterConfig w) @ map master_group ps"
    by (rule registered_groups(1)[OF ok])
  have nm: "\<forall>q \<in> set ps. groupName (master_group q) = name q"
    by (rule registered_groups(3)[OF ok])
  from registered_names_fresh[OF ok] have d: "distinct (map name ps)"
    and fresh: "name p \<notin> set (map groupName (groups (MasterConfig w)))"
    using p by auto
  have old: "filter (\<lambda>g. groupName g = name p) (groups (MasterConfig w)) = []"
    using fresh by (rule filter_none)
  have "filter (\<lambda>g. groupName g = name p) (map master_group ps)
      = map master_group (filter (\<lambda>q. name q = name p) ps)"
    using nm by (induction ps) auto
  then have new: "length (filter (\<lambda>g. groupName g = name p) (map master_group ps)) = 1"
    using count_one[OF d p] by simp
  show "length (filter (\<lambda>g. groupName g = name p) (groups (MasterConfig w'))) = 1"
    using gs old new by simp
qed

theorem C3_every_plugin_has_one_master_group_witness:
  "registerPluginConfigGroups [inventory_plugin, web_plugin] loaded =
     (None, snd (registerPluginConfigGroups [inventory_plugin, web_plugin] loaded))
   \<and> inventory_plugin \<in> set [inventory_plugin, web_plugin]
   \<and> MasterConfigGroup inventory_plugin = None
   \<and> \<lparr>groupName = ''inventory'', definitions = [], locked = True,
        plugin_extensible = True\<rparr>
       \<in> set (groups (MasterConfig
               (snd (registerPluginConfigGroups [inventory_plugin, web_plugin] loaded))))
   \<and> length (filter (\<lambda>g. groupName g = ''inventory'')
         (groups (MasterConfig
            (snd (registerPluginConfigGroups [inventory_plugin, web_plugin] loaded))))) = 1
   \<and> registerPluginConfigGroups [stats_plugin] loaded =
       (Some (NotNamedAfterPlugin ''MasterConfigGroup'' ''stats''), loaded)
   \<and> registerPluginConfigGroups ([stats_plugin] @ [inventory_plugin]) loaded =
       (Some (NotNamedAfterPlugin ''MasterConfigGroup'' ''stats''), loaded)"
proof -
  have ok: "fst (registerPluginConfigGroups [inventory_plugin, web_plugin] loaded) = None"
    by code_simp
  have h1: "registerPluginConfigGroups [inventory_plugin, web_plugin] loaded =
     (None, snd (registerPluginConfigGroups [inventory_plugin, web_plugin] loaded))"
    using ok by (metis prod.collapse)
  have mem: "inventory_plugin \<in> set [inventory_plugin, web_plugin]"
    by simp
  have none: "MasterConfigGroup inventory_plugin = None"
    and nm: "name inventory_plugin = ''inventory''"
    by (simp_all add: inventory_plugin_def)
  from C3_every_plugin_has_one_master_group [where ps = "[inventory_plugin, web_plugin]" and w = loaded
      and w' = "snd (registerPluginConfigGroups [inventory_plugin, web_plugin] loaded)",
      THEN conjunct1] h1 mem
  have "(MasterConfigGroup inventory_plugin = None \<longrightarrow>
        \<lparr>groupName = name inventory_plugin, definitions = [], locked = True,
           plugin_extensible = True\<rparr>
          \<in> set (groups (MasterConfig
                 (snd (registerPluginConfigGroups [inventory_plugin, web_plugin] loaded)))))
     \<and> length (filter (\<lambda>g. groupName g = name inventory_plugin)
           (groups (MasterConfig
              (snd (registerPluginConfigGroups [inventory_plugin, web_plugin] loaded))))) = 1"
    by blast
  with none nm have good:
    "\<lparr>groupName = ''inventory'', definitions = [], locked = True, plugin_extensible = True\<rparr>
       \<in> set (groups (MasterConfig
               (snd (registerPluginConfigGroups [inventory_plugin, web_plugin] loaded))))
     \<and> length (filter (\<lambda>g. groupName g = ''inventory'')
         (groups (MasterConfig
            (snd (registerPluginConfigGroups [inventory_plugin, web_plugin] loaded))))) = 1"
    by simp
  have thr: "registerPluginConfigGroups [stats_plugin] loaded =
       (Some (NotNamedAfterPlugin ''MasterConfigGroup'' ''stats''), loaded)"
    by (simp add: register_plugin_def register_master_def stats_plugin_def
          validateGroup_Master finalize_def new_PluginConfigGroup_def)
  from C3_every_plugin_has_one_master_group [where ps = "[stats_plugin]" and w = loaded and w' = loaded
      and e = "NotNamedAfterPlugin ''MasterConfigGroup'' ''stats''"
      and qs = "[inventory_plugin]", THEN conjunct2] thr
  have after: "registerPluginConfigGroups ([stats_plugin] @ [inventory_plugin]) loaded =
       (Some (NotNamedAfterPlugin ''MasterConfigGroup'' ''stats''), loaded)"
    by blast
  show ?thesis
    using h1 mem none good thr after by blast
qed

subsection \<open>Instance-level groups\<close>

text \<open>
  Claim C4, as stated: a group is registered into InstanceConfig if and only if the
  descriptor's \<open>instanceEntrypoint\<close> is set. The "if" fails where the call throws:
  \<open>chat_plugin\<close> has an entry point, its InstanceConfigGroup carries another name,
  the name check throws, and \<open>InstanceConfig\<close> is as before.
\<close>

theorem C4_counterexample:
  "truthy (property chat_plugin ''instanceEntrypoint'')
   \<and> fst (registerPluginConfigGroups [chat_plugin] loaded)
       = Some (NotNamedAfterPlugin ''InstanceConfigGroup'' ''chat'')
   \<and> groups (InstanceConfig (snd (registerPluginConfigGroups [chat_plugin] loaded)))
       = groups (InstanceConfig loaded)"
  by code_simp

text \<open>
  Claim C4, amended: the groups that a call adds to \<open>InstanceConfig\<close> come, in list
  order, from descriptors whose \<open>instanceEntrypoint\<close> is set (truthy), each the
  supplied InstanceConfigGroup or else the synthesized group; so a descriptor without
  \<open>instanceEntrypoint\<close> contributes no instance-level group, even when it supplies
  an InstanceConfigGroup, whether the call throws or not. When the call returns without
  throwing, every descriptor whose \<open>instanceEntrypoint\<close> is set has contributed its
  group.
\<close>

theorem C4_instance_groups_only_with_entrypoint:
  "(registerPluginConfigGroups ps w = (None, w') \<longrightarrow>
      groups (InstanceConfig w') = groups (InstanceConfig w) @
        map instance_group (filter (\<lambda>p. truthy (property p ''instanceEntrypoint'')) ps))
   \<and> (\<exists>n. groups (InstanceConfig (snd (registerPluginConfigGroups ps w))) =
        groups (InstanceConfig w) @
          map instance_group
            (take n (filter (\<lambda>p. truthy (property p ''instanceEntrypoint'')) ps)))"
  using registered_groups(2) instance_groups_prefix by blast

theorem C4_instance_groups_only_with_entrypoint_witness:
  "registerPluginConfigGroups [inventory_plugin, web_plugin] loaded =
     (None, snd (registerPluginConfigGroups [inventory_plugin, web_plugin] loaded))
   \<and> truthy (property inventory_plugin ''instanceEntrypoint'')
   \<and> InstanceConfigGroup web_plugin = Some (finalize (new_PluginConfigGroup ''web''))
   \<and> \<not> truthy (property web_plugin ''instanceEntrypoint'')
   \<and> groups (InstanceConfig (snd (registerPluginConfigGroups [inventory_plugin, web_plugin] loaded)))
       = groups (InstanceConfig loaded) @ [finalize (new_PluginConfigGroup ''inventory'')]"
proof -
  have ok: "fst (registerPluginConfigGroups [inventory_plugin, web_plugin] loaded) = None"
    by code_simp
  have h1: "registerPluginConfigGroups [inventory_plugin, web_plugin] loaded =
     (None, snd (registerPluginConfigGroups [inventory_plugin, web_plugin] loaded))"
    using ok by (metis prod.collapse)
  have a: "truthy (property inventory_plugin ''instanceEntrypoint'')"
    by code_simp
  have b: "\<not> truthy (property web_plugin ''instanceEntrypoint'')"
    by code_simp
  have c: "InstanceConfigGroup web_plugin = Some (finalize (new_PluginConfigGroup ''web''))"
    by (simp add: web_plugin_def)
  have d: "instance_group inventory_plugin = finalize (new_PluginConfigGroup ''inventory'')"
    by (simp add: instance_group_def inventory_plugin_def)
  from C4_instance_groups_only_with_entrypoint [of "[inventory_plugin, web_plugin]" loaded
      "snd (registerPluginConfigGroups [inventory_plugin, web_plugin] loaded)"] h1
  have "groups (InstanceConfig (snd (registerPluginConfigGroups [inventory_plugin, web_plugin] loaded)))
     = groups (InstanceConfig loaded) @
        map instance_group
          (filter (\<lambda>p. truthy (property p ''instanceEntrypoint'')) [inventory_plugin, web_plugin])"
    by blast
  with h1 a b c d show ?thesis by simp
qed

subsection \<open>A throw in the middle of the list\<close>

text \<open>
  Claim C8, as stated: if validation throws for the i-th descriptor, the groups of the
  descriptors before it remain registered and no group from the i-th or a later
  descriptor is registered. The last part fails when it is the InstanceConfigGroup of
  the i-th descriptor that fails validation: by then the descriptor's master-level group
  is registered. For \<open>chat_plugin\<close> the call throws the name error of the instance
  group, and the synthesized group \<open>chat\<close> is in \<open>MasterConfig\<close>.
\<close>

theorem C8_counterexample:
  "fst (registerPluginConfigGroups [chat_plugin] loaded)
       = Some (NotNamedAfterPlugin ''InstanceConfigGroup'' ''chat'')
   \<and> finalize (new_PluginConfigGroup ''chat'')
        \<in> set (groups (MasterConfig (snd (registerPluginConfigGroups [chat_plugin] loaded))))
   \<and> finalize (new_PluginConfigGroup ''chat'') \<notin> set (groups (MasterConfig loaded))"
  by code_simp

text \<open>
  Claim C8, amended: let the loop get through the descriptors \<open>ps\<close> before the i-th
  and leave the state \<open>w1\<close>. If validation of the i-th descriptor's MasterConfigGroup
  throws, the call throws that error and the state is \<open>w1\<close>: the earlier groups
  remain, nothing of the i-th or a later descriptor is registered. If validation of its
  InstanceConfigGroup throws, the call throws that error and the state is the one after
  the descriptor's master-level registration: \<open>MasterConfig\<close> has gained exactly the
  descriptor's master group (supplied or synthesized), \<open>InstanceConfig\<close> is as in
  \<open>w1\<close>, and nothing of a later descriptor is registered. In \<open>w1\<close> the configs
  hold, after the groups they had, the groups of the descriptors \<open>ps\<close>.
\<close>

theorem C8_throw_keeps_earlier_registrations:
  assumes "registerPluginConfigGroups ps w = (None, w1)"
  shows "(MasterConfigGroup p = Some g \<and> validateGroup p ''MasterConfigGroup'' = Inl e
            \<longrightarrow> registerPluginConfigGroups (ps @ p # qs) w = (Some e, w1))
       \<and> (register_master p w1 = (None, w2)
           \<and> truthy (property p ''instanceEntrypoint'')
           \<and> InstanceConfigGroup p = Some g'
           \<and> validateGroup p ''InstanceConfigGroup'' = Inl e'
            \<longrightarrow> registerPluginConfigGroups (ps @ p # qs) w = (Some e', w2)
               \<and> groups (MasterConfig w2) = groups (MasterConfig w1) @ [master_group p]
               \<and> InstanceConfig w2 = InstanceConfig w1
               \<and> SlaveConfig w2 = SlaveConfig w1)
       \<and> groups (MasterConfig w1) = groups (MasterConfig w) @ map master_group ps
       \<and> groups (InstanceConfig w1) = groups (InstanceConfig w) @
            map instance_group (filter (\<lambda>p. truthy (property p ''instanceEntrypoint'')) ps)"
proof (intro conjI impI)
  show "groups (MasterConfig w1) = groups (MasterConfig w) @ map master_group ps"
    by (rule registered_groups(1)[OF assms])
  show "groups (InstanceConfig w1) = groups (InstanceConfig w) @
            map instance_group (filter (\<lambda>p. truthy (property p ''instanceEntrypoint'')) ps)"
    by (rule registered_groups(2)[OF assms])
next
  assume a: "MasterConfigGroup p = Some g \<and> validateGroup p ''MasterConfigGroup'' = Inl e"
  then have "register_plugin p w1 = (Some e, w1)"
    by (simp add: register_plugin_def register_master_def)
  then show "registerPluginConfigGroups (ps @ p # qs) w = (Some e, w1)"
    using assms by (simp add: registerPluginConfigGroups_append)
next
  assume a: "register_master p w1 = (None, w2)
           \<and> truthy (property p ''instanceEntrypoint'')
           \<and> InstanceConfigGroup p = Some g'
           \<and> validateGroup p ''InstanceConfigGroup'' = Inl e'"
  then have "register_plugin p w1 = (Some e', w2)"
    by (simp add: register_plugin_def register_instance_def)
  then show "registerPluginConfigGroups (ps @ p # qs) w = (Some e', w2)"
    using assms by (simp add: registerPluginConfigGroups_append)
  from a have m: "register_master p w1 = (None, w2)" by simp
  show "groups (MasterConfig w2) = groups (MasterConfig w1) @ [master_group p]"
    using register_master_None(1)[OF m] by (simp add: master_group_def)
  show "InstanceConfig w2 = InstanceConfig w1"
    by (rule register_master_None(3)[OF m])
  show "SlaveConfig w2 = SlaveConfig w1"
    by (rule register_master_None(4)[OF m])
qed

theorem C8_throw_keeps_earlier_registrations_witness:
  "registerPluginConfigGroups [inventory_plugin] loaded =
     (None, snd (registerPluginConfigGroups [inventory_plugin] loaded))
   \<and> MasterConfigGroup stats_plugin = Some (finalize (new_PluginConfigGroup ''statistics''))
   \<and> validateGroup stats_plugin ''MasterConfigGroup''
       = Inl (NotNamedAfterPlugin ''MasterConfigGroup'' ''stats'')
   \<and> registerPluginConfigGroups ([inventory_plugin] @ stats_plugin # [web_plugin]) loaded =
       (Some (NotNamedAfterPlugin ''MasterConfigGroup'' ''stats''),
        snd (registerPluginConfigGroups [inventory_plugin] loaded))
   \<and> register_master chat_plugin (snd (registerPluginConfigGroups [inventory_plugin] loaded)) =
       (None, snd (register_master chat_plugin
                (snd (registerPluginConfigGroups [inventory_plugin] loaded))))
   \<and> truthy (property chat_plugin ''instanceEntrypoint'')
   \<and> InstanceConfigGroup chat_plugin = Some (finalize (new_PluginConfigGroup ''talk''))
   \<and> validateGroup chat_plugin ''InstanceConfigGroup''
       = Inl (NotNamedAfterPlugin ''InstanceConfigGroup'' ''chat'')
   \<and> registerPluginConfigGroups ([inventory_plugin] @ chat_plugin # [web_plugin]) loaded =
       (Some (NotNamedAfterPlugin ''InstanceConfigGroup'' ''chat''),
        snd (register_master chat_plugin
               (snd (registerPluginConfigGroups [inventory_plugin] loaded))))
   \<and> groups (MasterConfig (snd (register_master chat_plugin
               (snd (registerPluginConfigGroups [inventory_plugin] loaded))))) =
       groups (MasterConfig (snd (registerPluginConfigGroups [inventory_plugin] loaded)))
         @ [finalize (new_PluginConfigGroup ''chat'')]
   \<and> InstanceConfig (snd (register_master chat_plugin
               (snd (registerPluginConfigGroups [inventory_plugin] loaded)))) =
       InstanceConfig (snd (registerPluginConfigGroups [inventory_plugin] loaded))"
proof -
  let ?w1 = "snd (registerPluginConfigGroups [inventory_plugin] loaded)"
  let ?w2 = "snd (register_master chat_plugin ?w1)"
  have ok: "fst (registerPluginConfigGroups [inventory_plugin] loaded) = None"
    by code_simp
  have h: "registerPluginConfigGroups [inventory_plugin] loaded = (None, ?w1)"
    using ok by (metis prod.collapse)
  have m1: "MasterConfigGroup stats_plugin = Some (finalize (new_PluginConfigGroup ''statistics''))"
    by (simp add: stats_plugin_def)
  have v1: "validateGroup stats_plugin ''MasterConfigGroup''
       = Inl (NotNamedAfterPlugin ''MasterConfigGroup'' ''stats'')"
    by code_simp
  have okm: "fst (register_master chat_plugin ?w1) = None"
    by code_simp
  have m2: "register_master chat_plugin ?w1 = (None, ?w2)"
    using okm by (metis prod.collapse)
  have t: "truthy (property chat_plugin ''instanceEntrypoint'')"
    by code_simp
  have i2: "InstanceConfigGroup chat_plugin = Some (finalize (new_PluginConfigGroup ''talk''))"
    by (simp add: chat_plugin_def)
  have v2: "validateGroup chat_plugin ''InstanceConfigGroup''
       = Inl (NotNamedAfterPlugin ''InstanceConfigGroup'' ''chat'')"
    by code_simp
  have mg: "master_group chat_plugin = finalize (new_PluginConfigGroup ''chat'')"
    by (simp add: master_group_def chat_plugin_def)
  note A = C8_throw_keeps_earlier_registrations [OF h, of stats_plugin
      "finalize (new_PluginConfigGroup ''statistics'')"
      "NotNamedAfterPlugin ''MasterConfigGroup'' ''stats''" "[web_plugin]", THEN conjunct1]
  note B = C8_throw_keeps_earlier_registrations [OF h, where p = chat_plugin and ?w2.0 = "?w2"
      and g' = "finalize (new_PluginConfigGroup ''talk'')"
      and e' = "NotNamedAfterPlugin ''InstanceConfigGroup'' ''chat''" and qs = "[web_plugin]",
      THEN conjunct2, THEN conjunct1]
  from A m1 v1 have ra:
    "registerPluginConfigGroups ([inventory_plugin] @ stats_plugin # [web_plugin]) loaded =
       (Some (NotNamedAfterPlugin ''MasterConfigGroup'' ''stats''), ?w1)"
    by blast
  from B m2 t i2 v2 have rb:
    "registerPluginConfigGroups ([inventory_plugin] @ chat_plugin # [web_plugin]) loaded =
       (Some (NotNamedAfterPlugin ''InstanceConfigGroup'' ''chat''), ?w2)
     \<and> groups (MasterConfig ?w2) = groups (MasterConfig ?w1) @ [master_group chat_plugin]
     \<and> InstanceConfig ?w2 = InstanceConfig ?w1
     \<and> SlaveConfig ?w2 = SlaveConfig ?w1"
    by blast
  show ?thesis
    using h m1 v1 ra m2 t i2 v2 rb mg by simp
qed

subsection \<open>Finalize before register\<close>

text \<open>
  Claim C9: every group that the module itself creates and registers, the four base
  groups and every synthesized plugin group, has \<open>finalize()\<close> called on it before the
  \<open>registerGroup\<close> call. The top level runs without a throw, and in the list of calls
  made by the top level followed by \<open>registerPluginConfigGroups\<close> on any descriptors,
  every \<open>registerGroup\<close> call on a group of the module's own has an earlier
  \<open>finalize\<close> call that left that group.
\<close>

theorem C9_own_groups_finalized_before_registered:
  "fst module_init = None
   \<and> (\<forall>i k g. i < length (events (snd (registerPluginConfigGroups ps loaded)))
        \<and> events (snd (registerPluginConfigGroups ps loaded)) ! i = RegisterCall k Own g
        \<longrightarrow> (\<exists>j<i. events (snd (registerPluginConfigGroups ps loaded)) ! j = FinalizeCall g))"
proof (intro conjI allI impI)
  show "fst module_init = None" by (rule module_init_ok)
next
  fix i k g
  assume a: "i < length (events (snd (registerPluginConfigGroups ps loaded)))
        \<and> events (snd (registerPluginConfigGroups ps loaded)) ! i = RegisterCall k Own g"
  have "finalized_first [] (events (snd (registerPluginConfigGroups ps loaded)))"
    using loaded_events by (rule registerPluginConfigGroups_events)
  from finalized_first_sound[OF this] a
  show "\<exists>j<i. events (snd (registerPluginConfigGroups ps loaded)) ! j = FinalizeCall g"
    by fastforce
qed

theorem C9_own_groups_finalized_before_registered_witness:
  "1 < length (events (snd (registerPluginConfigGroups [inventory_plugin] loaded)))
   \<and> (\<exists>g. groupName g = ''master'' \<and> definitions g \<noteq> []
        \<and> events (snd (registerPluginConfigGroups [inventory_plugin] loaded)) ! 1
           = RegisterCall MasterK Own g
        \<and> (\<exists>j<1. events (snd (registerPluginConfigGroups [inventory_plugin] loaded)) ! j
             = FinalizeCall g))
   \<and> 9 < length (events (snd (registerPluginConfigGroups [inventory_plugin] loaded)))
   \<and> events (snd (registerPluginConfigGroups [inventory_plugin] loaded)) ! 9
       = RegisterCall MasterK Own (finalize (new_PluginConfigGroup ''inventory''))
   \<and> (\<exists>j<9. events (snd (registerPluginConfigGroups [inventory_plugin] loaded)) ! j
       = FinalizeCall (finalize (new_PluginConfigGroup ''inventory'')))"
proof -
  let ?es = "events (snd (registerPluginConfigGroups [inventory_plugin] loaded))"
  have l1: "1 < length ?es" and l9: "9 < length ?es"
    by code_simp+
  have e9: "?es ! 9 = RegisterCall MasterK Own (finalize (new_PluginConfigGroup ''inventory''))"
    by code_simp
  have e1: "(case ?es ! 1 of RegisterCall k og g \<Rightarrow>
               k = MasterK \<and> og = Own \<and> groupName g = ''master'' \<and> definitions g \<noteq> []
             | FinalizeCall g \<Rightarrow> False)"
    by code_simp
  then obtain g where g: "?es ! 1 = RegisterCall MasterK Own g" "groupName g = ''master''"
      "definitions g \<noteq> []"
    by (cases "?es ! 1") (auto split: event.splits)
  note T = C9_own_groups_finalized_before_registered [of "[inventory_plugin]", THEN conjunct2]
  from T l1 g(1) have f1: "\<exists>j<1. ?es ! j = FinalizeCall g" by blast
  from T l9 e9 have f9:
    "\<exists>j<9. ?es ! j = FinalizeCall (finalize (new_PluginConfigGroup ''inventory''))" by blast
  show ?thesis
    using l1 l9 e9 g f1 f9 by blast
qed

subsection \<open>The config command\<close>

text \<open>
  The instance and the platform are parameters of the command: \<open>get\<close>, \<open>set\<close>,
  \<open>serialize\<close>, \<open>JSON.stringify\<close> and the write of the file may each throw.
\<close>

text \<open>
  Claim C5: with the command \<open>set\<close> and \<open>args.value\<close> undefined, the value
  \<open>null\<close> is passed to \<open>instance.set\<close> for the named field. The state of the
  instance afterwards is the one that \<open>instance.set(args.field, null)\<close> leaves, that
  call is the first call on the instance, \<open>args.value\<close> is \<open>null\<close> afterwards, and
  the run is the run with an explicit \<open>null\<close>.
\<close>

theorem C5_omitted_value_is_null:
  assumes "js_index (underscore (args m)) 1 = JStr ''set''"
      and "value_arg (args m) = JUndefined"
  shows "inst (snd (handleConfigCommand sys obj configPath m)) =
            snd (inst_set obj (inst m) (field_arg (args m)) JNull)
       \<and> (\<exists>rest. calls (snd (handleConfigCommand sys obj configPath m)) =
            calls m @ SetCall (field_arg (args m)) JNull # rest)
       \<and> value_arg (args (snd (handleConfigCommand sys obj configPath m))) = JNull
       \<and> handleConfigCommand sys obj configPath m =
           handleConfigCommand sys obj configPath (m\<lparr>args := (args m)\<lparr>value_arg := JNull\<rparr>\<rparr>)"
  using assms
  by (auto simp: handleConfigCommand_def set_field_def write_config_def outputFile_def
                 catch_set_def Let_def
           split: prod.splits option.splits exn.splits sum.splits)

theorem C5_omitted_value_is_null_witness:
  "js_index (underscore (args (sample_run [JStr ''config'', JStr ''set''] (JStr ''master.http_port'') JUndefined))) 1
     = JStr ''set''
   \<and> value_arg (args (sample_run [JStr ''config'', JStr ''set''] (JStr ''master.http_port'') JUndefined))
     = JUndefined
   \<and> inst_set sample_instance
        (inst (sample_run [JStr ''config'', JStr ''set''] (JStr ''master.http_port'') JUndefined))
        (JStr ''master.http_port'') JNull
     = (None, [(''master.http_port'', JNull), (''master.web_root'', JStr ''/'')])
   \<and> inst (snd (handleConfigCommand sample_platform sample_instance ''config.json''
        (sample_run [JStr ''config'', JStr ''set''] (JStr ''master.http_port'') JUndefined)))
     = [(''master.http_port'', JNull), (''master.web_root'', JStr ''/'')]
   \<and> calls (snd (handleConfigCommand sample_platform sample_instance ''config.json''
        (sample_run [JStr ''config'', JStr ''set''] (JStr ''master.http_port'') JUndefined)))
     = [SetCall (JStr ''master.http_port'') JNull, SerializeCall]
   \<and> value_arg (args (snd (handleConfigCommand sample_platform sample_instance ''config.json''
        (sample_run [JStr ''config'', JStr ''set''] (JStr ''master.http_port'') JUndefined))))
     = JNull"
proof -
  let ?m = "sample_run [JStr ''config'', JStr ''set''] (JStr ''master.http_port'') JUndefined"
  have h1: "js_index (underscore (args ?m)) 1 = JStr ''set''"
    by (simp add: sample_run_def js_index_def)
  have h2: "value_arg (args ?m) = JUndefined"
    by (simp add: sample_run_def)
  have f: "field_arg (args ?m) = JStr ''master.http_port''"
    by (simp add: sample_run_def)
  have st: "inst_set sample_instance (inst ?m) (JStr ''master.http_port'') JNull
     = (None, [(''master.http_port'', JNull), (''master.web_root'', JStr ''/'')])"
    by (simp add: sample_instance_def sample_set_def sample_run_def)
  have run: "calls (snd (handleConfigCommand sample_platform sample_instance ''config.json'' ?m))
     = [SetCall (JStr ''master.http_port'') JNull, SerializeCall]"
    by (simp add: handleConfigCommand_def set_field_def write_config_def outputFile_def
          sample_run_def js_index_def sample_platform_def sample_stringify_def
          sample_instance_def sample_set_def Let_def)
  note T = C5_omitted_value_is_null [OF h1 h2, where sys = sample_platform
      and obj = sample_instance and configPath = "''config.json''"]
  have nul: "value_arg (args (snd (handleConfigCommand sample_platform sample_instance
      ''config.json'' ?m))) = JNull"
    using T by blast
  have "inst (snd (handleConfigCommand sample_platform sample_instance ''config.json'' ?m))
      = snd (inst_set sample_instance (inst ?m) (field_arg (args ?m)) JNull)"
    using T by blast
  then have ins: "inst (snd (handleConfigCommand sample_platform sample_instance
      ''config.json'' ?m)) = [(''master.http_port'', JNull), (''master.web_root'', JStr ''/'')]"
    using st f by simp
  show ?thesis
    using h1 h2 st ins run nul by blast
qed





text \<open>
  Claim C7: with the command \<open>show\<close>: a value returned by \<open>instance.get\<close> is
  printed; an InvalidField error has its message printed on \<open>console.error\<close> and is
  not thrown; any other error is thrown to the caller, and nothing is printed.
\<close>

theorem C7_show_prints_reports_or_propagates:
  assumes "js_index (underscore (args m)) 1 = JStr ''show''"
  shows "let g = inst_get obj (inst m) (field_arg (args m));
             r = handleConfigCommand sys obj configPath m
         in (\<forall>v. g = Inr v \<longrightarrow>
               fst r = None \<and> console_log (snd r) = console_log m @ [Value v]
               \<and> console_error (snd r) = console_error m)
          \<and> (\<forall>msg. g = Inl (InvalidField msg) \<longrightarrow>
               fst r = None \<and> console_error (snd r) = console_error m @ [msg]
               \<and> console_log (snd r) = console_log m)
          \<and> (\<forall>e. g = Inl e \<and> (\<forall>msg. e \<noteq> InvalidField msg) \<longrightarrow>
               fst r = Some e \<and> console_log (snd r) = console_log m
               \<and> console_error (snd r) = console_error m)"
  using assms
  by (auto simp: handleConfigCommand_def show_field_def Let_def split: exn.splits)


theorem C7_show_prints_reports_or_propagates_witness:
  "js_index (underscore (args (sample_run [JStr ''config'', JStr ''show''] (JStr ''master.web_root'') JUndefined))) 1
     = JStr ''show''
   \<and> inst_get sample_instance
        (inst (sample_run [JStr ''config'', JStr ''show''] (JStr ''master.web_root'') JUndefined))
        (JStr ''master.web_root'') = Inr (JStr ''/'')
   \<and> fst (handleConfigCommand sample_platform sample_instance ''config.json''
        (sample_run [JStr ''config'', JStr ''show''] (JStr ''master.web_root'') JUndefined)) = None
   \<and> console_log (snd (handleConfigCommand sample_platform sample_instance ''config.json''
        (sample_run [JStr ''config'', JStr ''show''] (JStr ''master.web_root'') JUndefined)))
     = [Value (JStr ''/'')]
   \<and> inst_get sample_instance
        (inst (sample_run [JStr ''config'', JStr ''show''] (JStr ''master.port'') JUndefined))
        (JStr ''master.port'') = Inl (InvalidField ''No field named master.port'')
   \<and> fst (handleConfigCommand sample_platform sample_instance ''config.json''
        (sample_run [JStr ''config'', JStr ''show''] (JStr ''master.port'') JUndefined)) = None
   \<and> console_error (snd (handleConfigCommand sample_platform sample_instance ''config.json''
        (sample_run [JStr ''config'', JStr ''show''] (JStr ''master.port'') JUndefined)))
     = [''No field named master.port'']
   \<and> inst_get sample_instance
        (inst (sample_run [JStr ''config'', JStr ''show''] (JNum 7) JUndefined))
        (JNum 7) = Inl (OtherError ''field is not a string'')
   \<and> fst (handleConfigCommand sample_platform sample_instance ''config.json''
        (sample_run [JStr ''config'', JStr ''show''] (JNum 7) JUndefined))
     = Some (OtherError ''field is not a string'')
   \<and> console_error (snd (handleConfigCommand sample_platform sample_instance ''config.json''
        (sample_run [JStr ''config'', JStr ''show''] (JNum 7) JUndefined)))
     = []"
proof -
  let ?a = "sample_run [JStr ''config'', JStr ''show''] (JStr ''master.web_root'') JUndefined"
  let ?b = "sample_run [JStr ''config'', JStr ''show''] (JStr ''master.port'') JUndefined"
  let ?c = "sample_run [JStr ''config'', JStr ''show''] (JNum 7) JUndefined"
  have ha: "js_index (underscore (args ?a)) 1 = JStr ''show''"
    and hb: "js_index (underscore (args ?b)) 1 = JStr ''show''"
    and hc: "js_index (underscore (args ?c)) 1 = JStr ''show''"
    by (simp_all add: sample_run_def js_index_def)
  have ga: "inst_get sample_instance (inst ?a) (JStr ''master.web_root'') = Inr (JStr ''/'')"
    by (simp add: sample_instance_def sample_get_def sample_run_def)
  have gb: "inst_get sample_instance (inst ?b) (JStr ''master.port'')
      = Inl (InvalidField ''No field named master.port'')"
    by (simp add: sample_instance_def sample_get_def sample_run_def)
  have gc: "inst_get sample_instance (inst ?c) (JNum 7) = Inl (OtherError ''field is not a string'')"
    by (simp add: sample_instance_def sample_get_def sample_run_def)
  have fa: "field_arg (args ?a) = JStr ''master.web_root''"
    "console_log ?a = []" "console_error ?a = []"
    and fb: "field_arg (args ?b) = JStr ''master.port''"
    "console_log ?b = []" "console_error ?b = []"
    and fc: "field_arg (args ?c) = JNum 7"
    "console_log ?c = []" "console_error ?c = []"
    by (simp_all add: sample_run_def)
  note A = C7_show_prints_reports_or_propagates
             [OF ha, where sys = sample_platform and obj = sample_instance
               and configPath = "''config.json''"]
  note B = C7_show_prints_reports_or_propagates
             [OF hb, where sys = sample_platform and obj = sample_instance
               and configPath = "''config.json''"]
  note C = C7_show_prints_reports_or_propagates
             [OF hc, where sys = sample_platform and obj = sample_instance
               and configPath = "''config.json''"]
  show ?thesis
    using ha ga gb gc A B C
    by (simp add: Let_def fa fb fc)
qed

text \<open>
  Claim C10: when \<open>args._[1]\<close> is none of \<open>list\<close>, \<open>show\<close> and \<open>set\<close>, the
  command returns without a call on the instance, without writing a file and without a
  throw: the state, with its list of calls and its files, is unchanged.
\<close>

theorem C10_unknown_command_does_nothing:
  assumes "js_index (underscore (args m)) 1 \<notin> {JStr ''list'', JStr ''show'', JStr ''set''}"
  shows "handleConfigCommand sys obj configPath m = (None, m)"
  using assms by (simp add: handleConfigCommand_def)

theorem C10_unknown_command_does_nothing_witness:
  "js_index (underscore (args (sample_run [JStr ''config'', JStr ''reset''] (JStr ''master.web_root'') JUndefined))) 1
      \<notin> {JStr ''list'', JStr ''show'', JStr ''set''}
   \<and> handleConfigCommand sample_platform sample_instance ''config.json''
        (sample_run [JStr ''config'', JStr ''reset''] (JStr ''master.web_root'') JUndefined)
      = (None, sample_run [JStr ''config'', JStr ''reset''] (JStr ''master.web_root'') JUndefined)"
proof -
  have h: "js_index (underscore (args (sample_run [JStr ''config'', JStr ''reset''] (JStr ''master.web_root'') JUndefined))) 1
      \<notin> {JStr ''list'', JStr ''show'', JStr ''set''}"
    by (simp add: sample_run_def js_index_def)
  show ?thesis using h C10_unknown_command_does_nothing [OF h] by blast
qed

end
